theory Spec2Isabelle
  imports Complex_Main "HOL-Library.Sublist" "HOL-Library.AList"
begin

section \<open>Data model shared by the three screeners\<close>

text \<open>
  The three scripts (bundlecheck, tokenscreen, walletscreen) read JSON objects returned by
  external services. A JSON object is modelled as a record; a key the code reads with
  \<^verbatim>\<open>d.get(key)\<close> or \<^verbatim>\<open>d.get(key, default)\<close> is a field of option type, where
  \<open>None\<close> stands for an absent key. A key that is present holds a value of the
  field's type (JSON \<^verbatim>\<open>null\<close> values are not modelled). Python integers are \<open>int\<close>; Python floats are idealised as exact
  rationals (\<open>rat\<close>), so rounding, infinities and NaN are outside this model.
\<close>

definition dict_get :: "'a \<Rightarrow> 'a option \<Rightarrow> 'a" where
  \<comment> \<open>\<^verbatim>\<open>d.get(key, default)\<close>, applied to the field of the key\<close>
  "dict_get dflt field = (case field of None \<Rightarrow> dflt | Some v \<Rightarrow> v)"

definition truthy_str :: "string option \<Rightarrow> bool" where
  \<comment> \<open>Python truthiness of \<^verbatim>\<open>d.get(key)\<close> for a string field: absent and empty are false\<close>
  "truthy_str field = (case field of None \<Rightarrow> False | Some s \<Rightarrow> s \<noteq> [])"

definition py_int :: "rat \<Rightarrow> int" where
  \<comment> \<open>Python \<^verbatim>\<open>int(x)\<close> on a number: truncation towards zero\<close>
  "py_int x = (if 0 \<le> x then \<lfloor>x\<rfloor> else \<lceil>x\<rceil>)"

text \<open>
  What the code can do besides returning a value: \<open>ErrorResult msg\<close> is the dictionary
  \<^verbatim>\<open>{"error": msg}\<close> that launch analysis returns (the caller prints it and exits);
  \<open>ZeroDivisionError\<close> is the exception Python raises on a division by zero.
\<close>

datatype failure = ErrorResult string | ZeroDivisionError

definition py_div :: "rat \<Rightarrow> rat \<Rightarrow> failure + rat" where
  \<comment> \<open>Python \<^verbatim>\<open>x / y\<close>\<close>
  "py_div x y = (if y = 0 then Inl ZeroDivisionError else Inr (x / y))"

text \<open>
  A reason line is an f-string \<^verbatim>\<open>"+40: {block0_count} wallets ..."\<close>. It is kept as the
  signed number printed in front, the text of the template after the colon, and the
  values interpolated into the template (number formatting is not modelled).
\<close>

datatype fmt_arg = Num rat | Str string

datatype reason = Reason (delta: int) (label: string) (args: "fmt_arg list")

type_synonym score_state = "int \<times> reason list"

definition add_reason :: "int \<Rightarrow> string \<Rightarrow> fmt_arg list \<Rightarrow> score_state \<Rightarrow> score_state" where
  \<comment> \<open>\<^verbatim>\<open>score += d; reasons.append(f"{d:+}: ...")\<close>\<close>
  "add_reason d txt as st = (fst st + d, snd st @ [Reason d txt as])"

definition clamp_score :: "int \<Rightarrow> int" where
  \<comment> \<open>\<^verbatim>\<open>max(0, min(100, score))\<close>\<close>
  "clamp_score score = max 0 (min 100 score)"

section \<open>bundlecheck: launch-window scoring\<close>

record buyer =
  b_wallet :: string
  b_amount :: rat

text \<open>
  The analysis dictionary. The four keys that \<^verbatim>\<open>calculate_risk_score\<close> reads with
  \<^verbatim>\<open>analysis.get(key, default)\<close> are optional fields.
\<close>

record analysis =
  creation_slot :: int
  creation_timestamp :: int
  block0_buyers :: "buyer list option"
  block0_count :: "int option"
  block0_total :: rat
  block0_pct :: "rat option"
  total_transferred :: "rat option"
  early_buyer_count :: nat
  all_buyers :: nat
  buyers_by_slot :: "(int \<times> nat) list"

definition buyer_count_rule :: "int \<Rightarrow> score_state \<Rightarrow> score_state" where
  \<comment> \<open>Number of Block 0 buyers\<close>
  "buyer_count_rule count st =
     (if count \<ge> 20 then
        add_reason 40 ''{block0_count} wallets bought in Block 0 (highly coordinated)''
          [Num (of_int count)] st
      else if count \<ge> 10 then
        add_reason 25 ''{block0_count} wallets bought in Block 0 (suspicious)''
          [Num (of_int count)] st
      else if count \<ge> 5 then
        add_reason 10 ''{block0_count} wallets bought in Block 0'' [Num (of_int count)] st
      else st)"

definition supply_rule :: "rat \<Rightarrow> score_state \<Rightarrow> score_state" where
  \<comment> \<open>Block 0 supply concentration\<close>
  "supply_rule pct st =
     (if pct \<ge> 50 then
        add_reason 35 ''{block0_pct:.1f}% of supply grabbed in Block 0'' [Num pct] st
      else if pct \<ge> 30 then
        add_reason 25 ''{block0_pct:.1f}% of supply grabbed in Block 0'' [Num pct] st
      else if pct \<ge> 15 then
        add_reason 15 ''{block0_pct:.1f}% of supply grabbed in Block 0'' [Num pct] st
      else if pct \<ge> 5 then
        add_reason 5 ''{block0_pct:.1f}% of supply grabbed in Block 0'' [Num pct] st
      else st)"

definition largest_buyer_rule :: "buyer list \<Rightarrow> rat \<Rightarrow> score_state \<Rightarrow> failure + score_state" where
  \<comment> \<open>Single large sniper: \<^verbatim>\<open>block0_buyers[0]["amount"] / analysis.get("total_transferred", 1)\<close>\<close>
  "largest_buyer_rule buyers transferred st =
     (case buyers of
        [] \<Rightarrow> Inr st
      | b # _ \<Rightarrow>
          (case py_div (b_amount b) transferred of
             Inl e \<Rightarrow> Inl e
           | Inr q \<Rightarrow>
               let largest_buyer_pct = q * 100 in
               if largest_buyer_pct \<ge> 10 then
                 Inr (add_reason 20 ''Single wallet sniped {largest_buyer_pct:.1f}% in Block 0''
                        [Num largest_buyer_pct] st)
               else if largest_buyer_pct \<ge> 5 then
                 Inr (add_reason 10 ''Single wallet sniped {largest_buyer_pct:.1f}% in Block 0''
                        [Num largest_buyer_pct] st)
               else Inr st))"

definition clean_launch_rule :: "int \<Rightarrow> rat \<Rightarrow> score_state \<Rightarrow> score_state" where
  \<comment> \<open>Positive: Clean launch\<close>
  "clean_launch_rule count pct st =
     (if count \<le> 2 \<and> pct < 5 then
        add_reason (- 10) ''Clean launch (minimal Block 0 activity)'' [] st
      else st)"

definition calculate_risk_score :: "analysis \<Rightarrow> failure + score_state" where
  "calculate_risk_score analysis =
     (let count = dict_get 0 (block0_count analysis);
          pct = dict_get 0 (block0_pct analysis);
          buyers = dict_get [] (block0_buyers analysis);
          st = supply_rule pct (buyer_count_rule count (0, []))
      in case largest_buyer_rule buyers (dict_get 1 (total_transferred analysis)) st of
           Inl e \<Rightarrow> Inl e
         | Inr st' \<Rightarrow>
             let st'' = clean_launch_rule count pct st'
             in Inr (clamp_score (fst st''), snd st''))"

section \<open>bundlecheck: launch-window aggregation\<close>

text \<open>
  A transaction record of the feed and its token-transfer sub-records. The key
  \<^verbatim>\<open>tokenTransfers\<close> is read with the default \<^verbatim>\<open>[]\<close>, so an absent key is the empty list.
\<close>

record token_transfer =
  tr_mint :: "string option"
  toUserAccount :: "string option"
  fromUserAccount :: "string option"
  tokenAmount :: "rat option"

record transaction =
  slot :: "int option"
  timestamp :: "int option"
  tokenTransfers :: "token_transfer list"

text \<open>An entry of \<^verbatim>\<open>buyers_by_slot[slot_diff]\<close> and a value of \<^verbatim>\<open>wallet_purchases\<close>.\<close>

record buy =
  buy_wallet :: string
  buy_amount :: rat
  buy_slot :: int

record purchase =
  p_amount :: rat
  p_slot :: "int option"
  p_is_block0 :: bool

definition new_purchase :: purchase where
  \<comment> \<open>the \<^verbatim>\<open>defaultdict\<close> factory of \<^verbatim>\<open>wallet_purchases\<close>\<close>
  "new_purchase = \<lparr>p_amount = 0, p_slot = None, p_is_block0 = False\<rparr>"

text \<open>
  The two dictionaries the loop mutates. Python dictionaries keep insertion order, which
  decides the order of \<^verbatim>\<open>wallet_purchases.items()\<close>, so both are association lists:
  \<open>AList.update\<close> overwrites a key in place and appends a new key at the end.
\<close>

record launch_state =
  st_buyers_by_slot :: "(int \<times> buy list) list"
  st_wallet_purchases :: "(string \<times> purchase) list"

definition calc_slot_diff :: "int \<Rightarrow> int \<Rightarrow> int" where
  \<comment> \<open>\<^verbatim>\<open>slot - creation_slot if creation_slot else 0\<close>\<close>
  "calc_slot_diff creation s = (if creation \<noteq> 0 then s - creation else 0)"

definition record_buy :: "string \<Rightarrow> rat \<Rightarrow> int \<Rightarrow> int \<Rightarrow> launch_state \<Rightarrow> launch_state" where
  \<comment> \<open>the body of \<^verbatim>\<open>if to_wallet and amount > 0\<close>\<close>
  "record_buy to_wallet amount s slot_diff st =
     (let is_block0 = (slot_diff \<le> 1);
          bucket = dict_get [] (map_of (st_buyers_by_slot st) slot_diff);
          buyers' = AList.update slot_diff
                      (bucket @ [\<lparr>buy_wallet = to_wallet, buy_amount = amount, buy_slot = s\<rparr>])
                      (st_buyers_by_slot st);
          p = dict_get new_purchase (map_of (st_wallet_purchases st) to_wallet);
          p1 = p\<lparr>p_amount := p_amount p + amount\<rparr>;
          p2 = (if p_slot p1 = None then p1\<lparr>p_slot := Some s, p_is_block0 := is_block0\<rparr>
                else p1)
      in \<lparr>st_buyers_by_slot = buyers',
          st_wallet_purchases = AList.update to_wallet p2 (st_wallet_purchases st)\<rparr>)"

definition process_transfer :: "string \<Rightarrow> int \<Rightarrow> int \<Rightarrow> token_transfer \<Rightarrow> launch_state \<Rightarrow> launch_state" where
  \<comment> \<open>one iteration of \<^verbatim>\<open>for transfer in tx.get("tokenTransfers", [])\<close>\<close>
  "process_transfer mint s slot_diff transfer st =
     (if tr_mint transfer \<noteq> Some mint then st
      else
        let amount = dict_get 0 (tokenAmount transfer) in
        case toUserAccount transfer of
          None \<Rightarrow> st
        | Some to_wallet \<Rightarrow>
            if to_wallet = [] \<or> amount = 0 then st
            else if amount > 0 then record_buy to_wallet amount s slot_diff st
            else st)"

definition process_tx :: "string \<Rightarrow> int \<Rightarrow> transaction \<Rightarrow> launch_state \<Rightarrow> launch_state" where
  \<comment> \<open>one iteration of \<^verbatim>\<open>for tx in sorted_txs\<close> (the second loop)\<close>
  "process_tx mint creation tx st =
     (let s = dict_get 0 (slot tx);
          slot_diff = calc_slot_diff creation s
      in fold (process_transfer mint s slot_diff) (tokenTransfers tx) st)"

definition launch_loop :: "string \<Rightarrow> int \<Rightarrow> transaction list \<Rightarrow> launch_state" where
  "launch_loop mint creation sorted_txs =
     fold (process_tx mint creation) sorted_txs
       \<lparr>st_buyers_by_slot = [], st_wallet_purchases = []\<rparr>"

fun find_creation :: "transaction list \<Rightarrow> (int \<times> int) option" where
  \<comment> \<open>the first loop: slot and timestamp of the first record whose slot is truthy\<close>
  "find_creation [] = None"
| "find_creation (tx # txs) =
     (case slot tx of
        None \<Rightarrow> find_creation txs
      | Some s \<Rightarrow> if s \<noteq> 0 then Some (s, dict_get 0 (timestamp tx)) else find_creation txs)"

definition sort_by_timestamp :: "transaction list \<Rightarrow> transaction list" where
  \<comment> \<open>\<^verbatim>\<open>sorted(transactions, key=lambda x: x.get("timestamp", 0))\<close>; Python's sort is
      stable, as \<open>sort_key\<close> is\<close>
  "sort_by_timestamp transactions = sort_key (\<lambda>x. dict_get 0 (timestamp x)) transactions"

definition sort_buyers :: "buyer list \<Rightarrow> buyer list" where
  \<comment> \<open>\<^verbatim>\<open>block0_buyers.sort(key=lambda x: x["amount"], reverse=True)\<close>: descending, and
      buyers of equal amount keep their order, as a stable sort on the negated key does\<close>
  "sort_buyers buyers = sort_key (\<lambda>x. - b_amount x) buyers"

definition window_entries :: "(string \<times> purchase) list \<Rightarrow> (string \<times> purchase) list" where
  \<comment> \<open>the items of \<^verbatim>\<open>wallet_purchases\<close> that pass \<^verbatim>\<open>if data["is_block0"]\<close>\<close>
  "window_entries wallet_purchases = filter (\<lambda>(wallet, d). p_is_block0 d) wallet_purchases"

definition to_buyer :: "string \<times> purchase \<Rightarrow> buyer" where
  \<comment> \<open>\<^verbatim>\<open>{"wallet": wallet, "amount": data["amount"]}\<close>\<close>
  "to_buyer = (\<lambda>(wallet, d). \<lparr>b_wallet = wallet, b_amount = p_amount d\<rparr>)"

definition total_amount :: "(string \<times> purchase) list \<Rightarrow> rat" where
  \<comment> \<open>the sum of the \<^verbatim>\<open>amount\<close> entries, for \<^verbatim>\<open>block0_total\<close> and \<^verbatim>\<open>total_transferred\<close>\<close>
  "total_amount entries = sum_list (map (\<lambda>(wallet, d). p_amount d) entries)"

definition window_share :: "rat \<Rightarrow> rat \<Rightarrow> failure + rat" where
  \<comment> \<open>\<^verbatim>\<open>(block0_total / total_transferred * 100) if total_transferred > 0 else 0\<close>\<close>
  "window_share b0_total transferred =
     (if transferred > 0 then
        (case py_div b0_total transferred of Inl e \<Rightarrow> Inl e | Inr q \<Rightarrow> Inr (q * 100))
      else Inr 0)"

definition launch_summary :: "int \<Rightarrow> int \<Rightarrow> launch_state \<Rightarrow> failure + analysis" where
  \<comment> \<open>the part of \<^verbatim>\<open>analyze_launch_transactions\<close> after the loop, from
      \<^verbatim>\<open># Calculate Block 0 stats\<close> to the returned dictionary\<close>
  "launch_summary creation creation_ts st =
     (let wallet_purchases = st_wallet_purchases st;
          window = window_entries wallet_purchases;
          buyers = sort_buyers (map to_buyer window);
          b0_total = total_amount window;
          transferred = total_amount wallet_purchases;
          early = sum_list (map (\<lambda>s. length (dict_get [] (map_of (st_buyers_by_slot st) s)))
                             [0, 1, 2, 3, 4, 5])
      in case window_share b0_total transferred of
           Inl e \<Rightarrow> Inl e
         | Inr pct \<Rightarrow>
             Inr \<lparr>creation_slot = creation,
                  creation_timestamp = creation_ts,
                  block0_buyers = Some buyers,
                  block0_count = Some (int (length buyers)),
                  block0_total = b0_total,
                  block0_pct = Some pct,
                  total_transferred = Some transferred,
                  early_buyer_count = early,
                  all_buyers = length wallet_purchases,
                  buyers_by_slot =
                    map (\<lambda>(k, v). (k, length v))
                      (take 10 (sort_key fst (st_buyers_by_slot st)))\<rparr>)"

definition analyze_launch_transactions :: "transaction list \<Rightarrow> string \<Rightarrow> failure + analysis" where
  "analyze_launch_transactions transactions mint =
     (if transactions = [] then Inl (ErrorResult ''No transactions found'')
      else
        let sorted_txs = sort_by_timestamp transactions in
        case find_creation sorted_txs of
          None \<Rightarrow> Inl (ErrorResult ''Could not determine creation slot'')
        | Some (creation, creation_ts) \<Rightarrow>
            launch_summary creation creation_ts (launch_loop mint creation sorted_txs))"

section \<open>walletscreen: developer risk score\<close>

definition wallet_age_rule :: "rat \<Rightarrow> score_state \<Rightarrow> score_state" where
  \<comment> \<open>the two \<^verbatim>\<open>elif\<close> branches of the fresh-wallet check\<close>
  "wallet_age_rule wallet_age_days st =
     (if wallet_age_days < 7 then
        add_reason 30 ''Very new wallet ({wallet_age_days:.1f} days old)'' [Num wallet_age_days] st
      else if wallet_age_days < 30 then
        add_reason 10 ''Newer wallet ({wallet_age_days:.0f} days old)'' [Num wallet_age_days] st
      else st)"

definition rug_rate_rule :: "rat \<Rightarrow> score_state \<Rightarrow> score_state" where
  \<comment> \<open>RUG RATE (0-70 points)\<close>
  "rug_rate_rule rug_rate st =
     (let rug_points = py_int (rug_rate * 70) in
      if rug_points > 0 then
        add_reason rug_points ''{rug_rate*100:.0f}% confirmed rug rate''
          [Num (rug_rate * 100)] st
      else st)"

definition rug_floor_rule :: "int \<Rightarrow> score_state \<Rightarrow> score_state" where
  \<comment> \<open>Minimum for ANY confirmed rug: the score is assigned, not incremented\<close>
  "rug_floor_rule rug_count st =
     (if rug_count > 0 \<and> fst st < 40 then
        (40, snd st @ [Reason 40 ''(min): Has confirmed rug(s)'' []])
      else st)"

definition dead_token_rule :: "int \<Rightarrow> int \<Rightarrow> score_state \<Rightarrow> score_state" where
  \<comment> \<open>DEAD TOKEN PENALTY (less severe than rugs)\<close>
  "dead_token_rule dead_count rug_count st =
     (if dead_count > 0 \<and> rug_count = 0 then
        let dead_points = min 30 (dead_count * 10) in
        add_reason dead_points ''{dead_count} dead token(s)''
          [Num (of_int dead_count)] st
      else st)"

definition serial_launcher_rule :: "rat \<Rightarrow> score_state \<Rightarrow> score_state" where
  \<comment> \<open>SERIAL LAUNCHER PENALTY\<close>
  "serial_launcher_rule launches_per_week st =
     (if launches_per_week > 2 then
        let serial_points = min 20 (py_int (launches_per_week * 5)) in
        add_reason serial_points
          ''Serial launcher ({launches_per_week:.1f} tokens/week)'' [Num launches_per_week] st
      else if launches_per_week > 1 then
        add_reason 10 ''Frequent launcher ({launches_per_week:.1f} tokens/week)''
          [Num launches_per_week] st
      else st)"

definition volume_rule :: "int \<Rightarrow> score_state \<Rightarrow> score_state" where
  \<comment> \<open>VOLUME PENALTY (many launches)\<close>
  "volume_rule total_launches st =
     (if total_launches > 10 then
        add_reason 15 ''Industrial scale ({total_launches} tokens)''
          [Num (of_int total_launches)] st
      else if total_launches > 5 then
        add_reason 10 ''High volume ({total_launches} tokens)''
          [Num (of_int total_launches)] st
      else st)"

definition track_record_rule :: "int \<Rightarrow> int \<Rightarrow> score_state \<Rightarrow> score_state" where
  \<comment> \<open>POSITIVE: Good track record\<close>
  "track_record_rule total_launches bad_count st =
     (if total_launches \<ge> 3 \<and> bad_count = 0 then
        add_reason (- 15) ''Clean track record (3+ tokens, no rugs)'' [] st
      else st)"

definition launch_rate :: "int \<Rightarrow> int \<Rightarrow> failure + rat" where
  \<comment> \<open>\<^verbatim>\<open>count / total_launches if total_launches > 0 else 0\<close>, for \<^verbatim>\<open>bad_rate\<close> and \<^verbatim>\<open>rug_rate\<close>\<close>
  "launch_rate n total_launches =
     (if total_launches > 0 then py_div (of_int n) (of_int total_launches) else Inr 0)"

definition calculate_dev_risk_score ::
    "rat \<Rightarrow> int \<Rightarrow> int \<Rightarrow> int \<Rightarrow> rat \<Rightarrow> failure + score_state" where
  "calculate_dev_risk_score wallet_age_days total_launches rug_count dead_count launches_per_week =
     (if wallet_age_days < 3 then
        Inr (95, [Reason 95 ''BURNER WALLET (age: {wallet_age_days:.1f} days)''
                    [Num wallet_age_days]])
      else
        let st = wallet_age_rule wallet_age_days (0, []) in
        if total_launches = 0 then
          Inr (min 100 (max (fst st) 80),
               snd st @ [Reason 80 ''First-ever token launch (no track record)'' []])
        else
          let bad_count = rug_count + dead_count in
          case launch_rate bad_count total_launches of
            Inl e \<Rightarrow> Inl e
          | Inr bad_rate \<Rightarrow>
              (case launch_rate rug_count total_launches of
                 Inl e \<Rightarrow> Inl e
               | Inr rug_rate \<Rightarrow>
                   let st1 = rug_rate_rule rug_rate st;
                       st2 = rug_floor_rule rug_count st1;
                       st3 = dead_token_rule dead_count rug_count st2;
                       st4 = serial_launcher_rule launches_per_week st3;
                       st5 = volume_rule total_launches st4;
                       st6 = track_record_rule total_launches bad_count st5
                   in Inr (clamp_score (fst st6), snd st6)))"

section \<open>tokenscreen: custom risk score\<close>

text \<open>
  The parts of the RugCheck report and of the DexScreener pair that the scorer reads.
  Keys read with a list default (\<^verbatim>\<open>risks\<close>, \<^verbatim>\<open>topHolders\<close>, \<^verbatim>\<open>markets\<close>,
  \<^verbatim>\<open>token_extensions\<close>) are lists, empty when the key is absent; nested keys
  (\<^verbatim>\<open>token.supply\<close>, \<^verbatim>\<open>liquidity.usd\<close>, \<^verbatim>\<open>lp.lpLockedPct\<close>) are one optional field.
\<close>

record risk =
  risk_name :: "string option"
  risk_level :: "string option"

datatype extension = ExtDict "string option" | ExtOther string
  \<comment> \<open>a dictionary with its \<^verbatim>\<open>extension\<close> key, or any other value with its \<^verbatim>\<open>str(ext)\<close>\<close>

record holder =
  h_address :: "string option"
  h_pct :: "rat option"

record account_info =
  acc_type :: "string option"
  acc_name :: "string option"

record market =
  lpLockedPct :: "rat option"

record rugcheck_report =
  mintAuthority :: "string option"
  freezeAuthority :: "string option"
  risks :: "risk list"
  token_extensions :: "extension list"
  totalMarketLiquidity :: "rat option"
  topHolders :: "holder list"
  knownAccounts :: "string \<rightharpoonup> account_info"
  creatorBalance :: "rat option"
  token_supply :: "rat option"
  markets :: "market list"

record dex_pair =
  liquidity_usd :: "rat option"
  baseToken_symbol :: "string option"

definition DEX_PATTERNS :: "string list" where
  "DEX_PATTERNS =
     [''pool'', ''amm'', ''liquidity'', ''vault'', ''reserve'',
      ''raydium'', ''orca'', ''meteora'', ''whirlpool'',
      ''lifinity'', ''phoenix'', ''openbook'', ''serum'',
      ''invariant'', ''saber'', ''aldrin'', ''crema'',
      ''cpmm'', ''clmm'', ''damm'']"

definition BURN_ADDRESSES :: "string list" where
  "BURN_ADDRESSES =
     [''1111111111111111111111111111111111'',
      ''1nc1nerator11111111111111111111111111111111'']"

definition lower_char :: "char \<Rightarrow> char" where
  "lower_char c =
     (let n = (of_char c :: nat) in if 65 \<le> n \<and> n \<le> 90 then char_of (n + 32) else c)"

definition str_lower :: "string \<Rightarrow> string" where
  \<comment> \<open>\<^verbatim>\<open>s.lower()\<close> on ASCII text\<close>
  "str_lower s = map lower_char s"

definition str_in :: "string \<Rightarrow> string \<Rightarrow> bool" where
  \<comment> \<open>\<^verbatim>\<open>pattern in s\<close> on strings: a contiguous occurrence\<close>
  "str_in pattern s = sublist pattern s"

definition is_lp_or_dex_account :: "string \<Rightarrow> string \<Rightarrow> string \<Rightarrow> bool" where
  "is_lp_or_dex_account account_type account_name address =
     (if List.member [''AMM'', ''LP'', ''POOL'', ''DEX''] account_type then True
      else if List.member BURN_ADDRESSES address then True
      else list_ex (\<lambda>pattern. str_in pattern (str_lower account_name)) DEX_PATTERNS)"

definition is_mutable :: "risk \<Rightarrow> bool" where
  \<comment> \<open>\<^verbatim>\<open>"mutable" in risk.get("name", "").lower()\<close>\<close>
  "is_mutable r = str_in ''mutable'' (str_lower (dict_get [] (risk_name r)))"

definition authority_rule :: "rugcheck_report \<Rightarrow> score_state \<Rightarrow> score_state" where
  \<comment> \<open>AUTHORITY CHECKS (most important)\<close>
  "authority_rule rugcheck st =
     (let st1 = (if truthy_str (mintAuthority rugcheck) then
                   add_reason 30 ''Mint authority active (can create more tokens)'' [] st
                 else st)
      in if truthy_str (freezeAuthority rugcheck) then
           add_reason 25 ''Freeze authority active (can freeze holders)'' [] st1
         else st1)"

definition metadata_rule :: "risk list \<Rightarrow> score_state \<Rightarrow> score_state" where
  \<comment> \<open>METADATA: the loop stops at the first mutable-metadata risk\<close>
  "metadata_rule rs st =
     (if list_ex is_mutable rs then add_reason 5 ''Mutable metadata'' [] st else st)"

definition extension_step :: "extension \<Rightarrow> score_state \<Rightarrow> score_state" where
  "extension_step ext st =
     (let ext_name = (case ext of ExtDict n \<Rightarrow> n | ExtOther t \<Rightarrow> Some t) in
      if ext_name = Some ''transferHook'' then
        add_reason 25 ''TransferHook extension (can block/tax transfers)'' [] st
      else if ext_name = Some ''permanentDelegate'' then
        add_reason 30 ''PermanentDelegate (can drain tokens)'' [] st
      else if ext_name = Some ''transferFeeConfig'' then
        add_reason 10 ''TransferFee extension'' [] st
      else st)"

definition extensions_rule :: "extension list \<Rightarrow> score_state \<Rightarrow> score_state" where
  \<comment> \<open>TOKEN-2022 EXTENSIONS\<close>
  "extensions_rule extensions st = fold extension_step extensions st"

definition liquidity_rule :: "rugcheck_report \<Rightarrow> dex_pair option \<Rightarrow> score_state \<Rightarrow> score_state" where
  \<comment> \<open>LIQUIDITY\<close>
  "liquidity_rule rugcheck dex st =
     (let liq0 = (case dex of None \<Rightarrow> None | Some d \<Rightarrow> liquidity_usd d);
          liq_usd = (case liq0 of None \<Rightarrow> Some (dict_get 0 (totalMarketLiquidity rugcheck))
                     | Some l \<Rightarrow> Some l)
      in case liq_usd of
           None \<Rightarrow> st
         | Some l \<Rightarrow>
             if l < 1000 then add_reason 20 ''Very low liquidity (${liq_usd:,.0f})'' [Num l] st
             else if l < 10000 then add_reason 10 ''Low liquidity (${liq_usd:,.0f})'' [Num l] st
             else st)"

definition is_lp_holder :: "rugcheck_report \<Rightarrow> holder \<Rightarrow> bool" where
  "is_lp_holder rugcheck h =
     (let addr = dict_get [] (h_address h);
          info = knownAccounts rugcheck addr;
          account_type = (case info of None \<Rightarrow> [] | Some i \<Rightarrow> dict_get [] (acc_type i));
          account_name = (case info of None \<Rightarrow> [] | Some i \<Rightarrow> dict_get [] (acc_name i))
      in is_lp_or_dex_account account_type account_name addr)"

definition holder_rule :: "rugcheck_report \<Rightarrow> score_state \<Rightarrow> score_state" where
  \<comment> \<open>HOLDER CONCENTRATION (excluding LP pools)\<close>
  "holder_rule rugcheck st =
     (let real_holders = filter (\<lambda>h. \<not> is_lp_holder rugcheck h) (topHolders rugcheck) in
      case real_holders of
        [] \<Rightarrow> st
      | h0 # _ \<Rightarrow>
          let top_10_real_pct = sum_list (map (\<lambda>h. dict_get 0 (h_pct h)) (take 10 real_holders));
              st1 = (if top_10_real_pct > 80 then
                       add_reason 20
                         ''Extreme holder concentration ({top_10_real_pct:.1f}% in top 10 non-LP wallets)''
                         [Num top_10_real_pct] st
                     else if top_10_real_pct > 50 then
                       add_reason 10
                         ''High holder concentration ({top_10_real_pct:.1f}% in top 10 non-LP wallets)''
                         [Num top_10_real_pct] st
                     else st)
          in if dict_get 0 (h_pct h0) > 30 then
               add_reason 15 ''Single wallet holds {real_holders[0][pct]:.1f}%''
                 [Num (dict_get 0 (h_pct h0))] st1
             else if dict_get 0 (h_pct h0) > 20 then
               add_reason 8 ''Single wallet holds {real_holders[0][pct]:.1f}%''
                 [Num (dict_get 0 (h_pct h0))] st1
             else st1)"

definition creator_rule :: "rugcheck_report \<Rightarrow> score_state \<Rightarrow> failure + score_state" where
  \<comment> \<open>CREATOR BALANCE, under \<^verbatim>\<open>if total_supply and creator_balance\<close>\<close>
  "creator_rule rugcheck st =
     (let creator_balance = dict_get 0 (creatorBalance rugcheck);
          total_supply = dict_get 1 (token_supply rugcheck)
      in if total_supply \<noteq> 0 \<and> creator_balance \<noteq> 0 then
           (case py_div creator_balance total_supply of
              Inl e \<Rightarrow> Inl e
            | Inr q \<Rightarrow>
                let creator_pct = q * 100 in
                if creator_pct > 20 then
                  Inr (add_reason 15 ''Creator still holds {creator_pct:.1f}%'' [Num creator_pct] st)
                else if creator_pct > 10 then
                  Inr (add_reason 8 ''Creator holds {creator_pct:.1f}%'' [Num creator_pct] st)
                else Inr st)
         else Inr st)"

definition risk_flag_step :: "risk \<Rightarrow> score_state \<Rightarrow> score_state" where
  "risk_flag_step r st =
     (let level = dict_get [] (risk_level r);
          name = dict_get [] (risk_name r)
      in if str_in ''mutable'' (str_lower name) then st
         else if level = ''error'' \<or> level = ''danger'' then add_reason 15 ''{name}'' [Str name] st
         else if level = ''warn'' then add_reason 5 ''{name}'' [Str name] st
         else st)"

definition risk_flags_rule :: "risk list \<Rightarrow> score_state \<Rightarrow> score_state" where
  \<comment> \<open>RUGCHECK FLAGS\<close>
  "risk_flags_rule rs st = fold risk_flag_step rs st"

definition max_lp_locked :: "market list \<Rightarrow> rat" where
  \<comment> \<open>\<^verbatim>\<open>max_lp_locked = max(max_lp_locked, lp_info.get("lpLockedPct", 0) or 0)\<close> from 0\<close>
  "max_lp_locked ms = fold (\<lambda>m acc. max acc (dict_get 0 (lpLockedPct m))) ms 0"

definition positive_rule :: "rugcheck_report \<Rightarrow> score_state \<Rightarrow> score_state" where
  \<comment> \<open>POSITIVE SIGNALS (reduce score)\<close>
  "positive_rule rugcheck st =
     (let locked = max_lp_locked (markets rugcheck);
          st1 = (if locked \<ge> 90 then
                   add_reason (- 10) ''LP {max_lp_locked:.0f}% locked'' [Num locked] st
                 else if locked \<ge> 50 then
                   add_reason (- 5) ''LP {max_lp_locked:.0f}% locked'' [Num locked] st
                 else st)
      in if dict_get 0 (creatorBalance rugcheck) = 0 then
           add_reason (- 5) ''Creator holds 0 tokens'' [] st1
         else st1)"

definition calculate_custom_score ::
    "rugcheck_report \<Rightarrow> dex_pair option \<Rightarrow> failure + score_state" where
  "calculate_custom_score rugcheck dex =
     (let st1 = authority_rule rugcheck (0, []);
          st2 = metadata_rule (risks rugcheck) st1;
          st3 = extensions_rule (token_extensions rugcheck) st2;
          st4 = liquidity_rule rugcheck dex st3;
          st5 = holder_rule rugcheck st4
      in case creator_rule rugcheck st5 of
           Inl e \<Rightarrow> Inl e
         | Inr st6 \<Rightarrow>
             let st7 = risk_flags_rule (risks rugcheck) st6;
                 st8 = positive_rule rugcheck st7
             in Inr (clamp_score (fst st8), snd st8))"

section \<open>Outcome classifier\<close>

text \<open>
  \<^verbatim>\<open>classify_token_outcome(mint)\<close> fetches a RugCheck summary and a DexScreener pair and
  classifies from them; the model takes the two fetched values, \<open>None\<close> when the fetch
  returned nothing. The emoji and display-name entries of the result are left out.
\<close>

datatype status = UNKNOWN | RUGGED | DEAD | LOW_LIQ | ACTIVE | HIGH_RISK | CAUTION

record rugcheck_summary =
  tokenMeta_symbol :: "string option"
  rugged :: "bool option"
  rc_score :: "rat option"

record outcome =
  out_status :: status
  out_liquidity :: "rat option"
  out_symbol :: string

definition initial_outcome :: outcome where
  "initial_outcome = \<lparr>out_status = UNKNOWN, out_liquidity = None, out_symbol = ''???''\<rparr>"

definition liquidity_status :: "rat \<Rightarrow> status" where
  \<comment> \<open>the liquidity buckets, the same in both scripts\<close>
  "liquidity_status liq = (if liq < 1000 then DEAD else if liq < 5000 then LOW_LIQ else ACTIVE)"

definition classify_with_dex :: "dex_pair \<Rightarrow> outcome \<Rightarrow> outcome" where
  \<comment> \<open>the \<^verbatim>\<open>if dex:\<close> branch: \<^verbatim>\<open>liquidity.usd\<close> is read with default 0\<close>
  "classify_with_dex d result =
     (let liquidity = dict_get 0 (liquidity_usd d) in
      result\<lparr>out_liquidity := Some liquidity,
             out_symbol := dict_get (out_symbol result) (baseToken_symbol d),
             out_status := liquidity_status liquidity\<rparr>)"

definition is_rugged :: "rugcheck_summary option \<Rightarrow> bool" where
  \<comment> \<open>\<^verbatim>\<open>if rugcheck:\<close> and, inside it, \<^verbatim>\<open>if rugcheck.get("rugged"):\<close>\<close>
  "is_rugged rugcheck = (case rugcheck of None \<Rightarrow> False | Some rc \<Rightarrow> rugged rc = Some True)"

definition tokenscreen_classify_token_outcome ::
    "rugcheck_summary option \<Rightarrow> dex_pair option \<Rightarrow> outcome" where
  \<comment> \<open>\<^verbatim>\<open>classify_token_outcome\<close> of tokenscreen.py\<close>
  "tokenscreen_classify_token_outcome rugcheck dex =
     (let result = (case rugcheck of None \<Rightarrow> initial_outcome
                    | Some rc \<Rightarrow> initial_outcome\<lparr>out_symbol := dict_get ''???'' (tokenMeta_symbol rc)\<rparr>)
      in if is_rugged rugcheck then
           result\<lparr>out_status := RUGGED\<rparr>
         else
           case dex of
             Some d \<Rightarrow> classify_with_dex d result
           | None \<Rightarrow>
               (case rugcheck of
                  None \<Rightarrow> result
                | Some rc \<Rightarrow>
                    let score = dict_get 100 (rc_score rc) in
                    if score > 70 then result\<lparr>out_status := HIGH_RISK\<rparr>
                    else result\<lparr>out_status := UNKNOWN\<rparr>))"

definition walletscreen_classify_token_outcome ::
    "rugcheck_summary option \<Rightarrow> dex_pair option \<Rightarrow> outcome" where
  \<comment> \<open>\<^verbatim>\<open>classify_token_outcome\<close> of walletscreen.py\<close>
  "walletscreen_classify_token_outcome rugcheck dex =
     (let result = (case rugcheck of None \<Rightarrow> initial_outcome
                    | Some rc \<Rightarrow> initial_outcome\<lparr>out_symbol := dict_get ''???'' (tokenMeta_symbol rc)\<rparr>)
      in if is_rugged rugcheck then
           result\<lparr>out_status := RUGGED\<rparr>
         else
           case dex of
             Some d \<Rightarrow> classify_with_dex d result
           | None \<Rightarrow>
               (case rugcheck of
                  None \<Rightarrow> result
                | Some rc \<Rightarrow>
                    let score = dict_get 100 (rc_score rc) in
                    if score > 70 then result\<lparr>out_status := HIGH_RISK\<rparr>
                    else if score > 40 then result\<lparr>out_status := CAUTION\<rparr>
                    else result\<lparr>out_status := ACTIVE\<rparr>))"

section \<open>The Buy events of a transaction list\<close>

text \<open>
  The loop of \<^verbatim>\<open>analyze_launch_transactions\<close> acts on a token transfer only when it is
  for the analysed mint, has a non-empty destination wallet and a positive amount. Such a
  transfer is a Buy event; the event is the very entry the loop appends to
  \<^verbatim>\<open>buyers_by_slot\<close> (wallet, amount and the slot of the enclosing record, 0 when the
  record has none). The events of a transaction list, in the order in which the loop
  meets them, are used below to state what the loop computes.
\<close>

definition is_buy :: "string \<Rightarrow> token_transfer \<Rightarrow> bool" where
  "is_buy mint transfer =
     (tr_mint transfer = Some mint \<and> truthy_str (toUserAccount transfer)
      \<and> dict_get 0 (tokenAmount transfer) > 0)"

definition buy_events :: "string \<Rightarrow> transaction \<Rightarrow> buy list" where
  "buy_events mint tx =
     map (\<lambda>transfer. \<lparr>buy_wallet = dict_get [] (toUserAccount transfer),
                      buy_amount = dict_get 0 (tokenAmount transfer),
                      buy_slot = dict_get 0 (slot tx)\<rparr>)
       (filter (is_buy mint) (tokenTransfers tx))"

definition all_buy_events :: "string \<Rightarrow> transaction list \<Rightarrow> buy list" where
  "all_buy_events mint txs = concat (map (buy_events mint) txs)"

definition buys_of :: "string \<Rightarrow> buy list \<Rightarrow> buy list" where
  \<comment> \<open>the Buy events of one wallet, in order\<close>
  "buys_of w events = filter (\<lambda>e. buy_wallet e = w) events"

definition apply_buy :: "int \<Rightarrow> buy \<Rightarrow> launch_state \<Rightarrow> launch_state" where
  "apply_buy creation e st =
     record_buy (buy_wallet e) (buy_amount e) (buy_slot e)
       (calc_slot_diff creation (buy_slot e)) st"

definition empty_state :: launch_state where
  "empty_state = \<lparr>st_buyers_by_slot = [], st_wallet_purchases = []\<rparr>"

definition purchase_of :: "int \<Rightarrow> buy list \<Rightarrow> purchase option" where
  \<comment> \<open>the entry of a wallet, from its own Buy events\<close>
  "purchase_of creation events =
     (case events of
        [] \<Rightarrow> None
      | e # later \<Rightarrow>
          Some \<lparr>p_amount = buy_amount e + sum_list (map buy_amount later),
                p_slot = Some (buy_slot e),
                p_is_block0 = (calc_slot_diff creation (buy_slot e) \<le> 1)\<rparr>)"



section \<open>The rule table of the specification (launch-sniping rule set)\<close>

text \<open>
  The table of section 4.4 of the specification, one function per row: the highest
  matching tier of a metric gives its delta, and no tier gives 0.
\<close>

definition count_tier :: "int \<Rightarrow> int" where
  \<comment> \<open>window-buyer count: at least 20 / 10 / 5 gives +40 / +25 / +10\<close>
  "count_tier c = (if 20 \<le> c then 40 else if 10 \<le> c then 25 else if 5 \<le> c then 10 else 0)"

definition share_tier :: "rat \<Rightarrow> int" where
  \<comment> \<open>window supply share: at least 50 / 30 / 15 / 5 percent gives +35 / +25 / +15 / +5\<close>
  "share_tier p =
     (if 50 \<le> p then 35 else if 30 \<le> p then 25 else if 15 \<le> p then 15
      else if 5 \<le> p then 5 else 0)"

definition largest_tier :: "rat \<Rightarrow> int" where
  \<comment> \<open>single largest window buyer's share of total: at least 10 / 5 percent gives +20 / +10\<close>
  "largest_tier l = (if 10 \<le> l then 20 else if 5 \<le> l then 10 else 0)"

definition clean_bonus :: "int \<Rightarrow> rat \<Rightarrow> int" where
  \<comment> \<open>window-buyer count at most 2 and window share below 5 percent gives -10\<close>
  "clean_bonus c p = (if c \<le> 2 \<and> p < 5 then - 10 else 0)"

definition largest_delta :: "buyer list \<Rightarrow> rat \<Rightarrow> int" where
  \<comment> \<open>the row of the largest window buyer applies to the first buyer of the list, and to
      nothing when there is no window buyer\<close>
  "largest_delta buyers t =
     (case buyers of [] \<Rightarrow> 0 | b # _ \<Rightarrow> largest_tier (b_amount b / t * 100))"

definition nonzero_deltas :: "int list \<Rightarrow> int list" where
  \<comment> \<open>the contributions that were made, in rule order\<close>
  "nonzero_deltas ds = filter (\<lambda>d. d \<noteq> 0) ds"

section \<open>Shared lemmas\<close>

lemma clamp_score_range: "0 \<le> clamp_score s \<and> clamp_score s \<le> 100"
  by (simp add: clamp_score_def)

lemma py_div_returns: "y \<noteq> 0 \<Longrightarrow> py_div x y = Inr (x / y)"
  by (simp add: py_div_def)

lemma py_int_nonneg: "0 \<le> x \<Longrightarrow> 0 \<le> py_int x"
  by (simp add: py_int_def)

subsection \<open>The scoring rules of bundlecheck\<close>

lemma buyer_count_rule_score: "fst (buyer_count_rule c st) = fst st + count_tier c"
  by (simp add: buyer_count_rule_def count_tier_def add_reason_def)

lemma buyer_count_rule_deltas:
  "map delta (snd (buyer_count_rule c st)) = map delta (snd st) @ nonzero_deltas [count_tier c]"
  by (simp add: buyer_count_rule_def count_tier_def add_reason_def nonzero_deltas_def)

lemma supply_rule_score: "fst (supply_rule p st) = fst st + share_tier p"
  by (simp add: supply_rule_def share_tier_def add_reason_def)

lemma supply_rule_deltas:
  "map delta (snd (supply_rule p st)) = map delta (snd st) @ nonzero_deltas [share_tier p]"
  by (simp add: supply_rule_def share_tier_def add_reason_def nonzero_deltas_def)

lemma clean_launch_rule_score: "fst (clean_launch_rule c p st) = fst st + clean_bonus c p"
  by (simp add: clean_launch_rule_def clean_bonus_def add_reason_def)

lemma clean_launch_rule_deltas:
  "map delta (snd (clean_launch_rule c p st)) =
     map delta (snd st) @ nonzero_deltas [clean_bonus c p]"
  by (simp add: clean_launch_rule_def clean_bonus_def add_reason_def nonzero_deltas_def)

lemma largest_buyer_rule_returns:
  assumes "buyers = [] \<or> t \<noteq> 0"
  shows "\<exists>st'. largest_buyer_rule buyers t st = Inr st'
           \<and> fst st' = fst st + largest_delta buyers t
           \<and> map delta (snd st') = map delta (snd st) @ nonzero_deltas [largest_delta buyers t]"
proof (cases buyers)
  case Nil
  then show ?thesis
    by (simp add: largest_buyer_rule_def largest_delta_def nonzero_deltas_def)
next
  case (Cons b bs)
  with assms have "t \<noteq> 0" by simp
  with Cons show ?thesis
    by (cases st)
       (simp add: largest_buyer_rule_def py_div_returns Let_def largest_tier_def largest_delta_def
          add_reason_def nonzero_deltas_def)
qed

lemma calculate_risk_score_tiers:
  assumes "dict_get [] (block0_buyers a) = buyers" and "dict_get 1 (total_transferred a) = t"
    and "buyers = [] \<or> t \<noteq> 0"
    and "dict_get 0 (block0_count a) = c" and "dict_get 0 (block0_pct a) = p"
  shows "\<exists>rs. calculate_risk_score a =
            Inr (clamp_score (count_tier c + share_tier p + largest_delta buyers t + clean_bonus c p),
                 rs)
          \<and> map delta rs =
              nonzero_deltas [count_tier c, share_tier p, largest_delta buyers t, clean_bonus c p]"
proof -
  define st where "st = supply_rule p (buyer_count_rule c (0, []))"
  obtain st' where st': "largest_buyer_rule buyers t st = Inr st'"
    and f: "fst st' = fst st + largest_delta buyers t"
    and d: "map delta (snd st') = map delta (snd st) @ nonzero_deltas [largest_delta buyers t]"
    using largest_buyer_rule_returns[OF assms(3)] by blast
  have eq: "calculate_risk_score a =
          Inr (clamp_score (fst (clean_launch_rule c p st')), snd (clean_launch_rule c p st'))"
    using assms(1,2,4,5) st' by (simp add: calculate_risk_score_def Let_def st_def)
  have s: "fst (clean_launch_rule c p st') =
             count_tier c + share_tier p + largest_delta buyers t + clean_bonus c p"
    by (simp add: clean_launch_rule_score f st_def supply_rule_score buyer_count_rule_score)
  have ds: "map delta (snd (clean_launch_rule c p st')) =
             nonzero_deltas [count_tier c, share_tier p, largest_delta buyers t, clean_bonus c p]"
    unfolding clean_launch_rule_deltas d st_def supply_rule_deltas buyer_count_rule_deltas
    by (simp add: nonzero_deltas_def)
  show ?thesis using eq s ds by simp
qed

lemma calculate_risk_score_returns:
  assumes "dict_get [] (block0_buyers a) = [] \<or> dict_get 1 (total_transferred a) \<noteq> 0"
  shows "\<exists>s rs. calculate_risk_score a = Inr (s, rs) \<and> 0 \<le> s \<and> s \<le> 100"
  using calculate_risk_score_tiers[OF refl refl assms refl refl] clamp_score_range by blast

subsection \<open>The scoring rules of walletscreen\<close>

lemma launch_rate_returns:
  "launch_rate n total_launches =
     Inr (if total_launches > 0 then of_int n / of_int total_launches else 0)"
  by (simp add: launch_rate_def py_div_def)

lemma serial_launcher_rule_mono: "fst st \<le> fst (serial_launcher_rule per_week st)"
  by (auto simp: serial_launcher_rule_def Let_def add_reason_def intro!: py_int_nonneg)

lemma volume_rule_mono: "fst st \<le> fst (volume_rule n st)"
  by (simp add: volume_rule_def add_reason_def)

lemma rug_floor_rule_floor: "0 < rug_count \<Longrightarrow> 40 \<le> fst (rug_floor_rule rug_count st)"
  by (simp add: rug_floor_rule_def)

lemma calculate_dev_risk_score_returns:
  "\<exists>s rs. calculate_dev_risk_score age launches rugs deads per_week = Inr (s, rs)
      \<and> 0 \<le> s \<and> s \<le> 100"
  by (simp add: calculate_dev_risk_score_def Let_def launch_rate_returns clamp_score_range
      wallet_age_rule_def add_reason_def)

subsection \<open>The scoring rules of tokenscreen\<close>

lemma creator_rule_returns: "\<exists>st'. creator_rule rugcheck st = Inr st'"
  by (simp add: creator_rule_def Let_def py_div_returns)

lemma calculate_custom_score_returns:
  "\<exists>s rs. calculate_custom_score rugcheck dex = Inr (s, rs) \<and> 0 \<le> s \<and> s \<le> 100"
proof -
  obtain st6 where "creator_rule rugcheck
      (holder_rule rugcheck (liquidity_rule rugcheck dex
         (extensions_rule (token_extensions rugcheck)
            (metadata_rule (risks rugcheck) (authority_rule rugcheck (0, [])))))) = Inr st6"
    using creator_rule_returns by blast
  then show ?thesis
    by (simp add: calculate_custom_score_def Let_def clamp_score_range)
qed


section \<open>Claims about the scorers\<close>

text \<open>
  Two inputs whose deltas sum outside the range: a clean launch sums to -10 and scores
  0; a token with both authorities active, two risky extensions and no liquidity sums to
  130 and scores 100.
\<close>

lemma risk_score_clamped_at_0:
  "calculate_risk_score
      \<lparr>creation_slot = 7, creation_timestamp = 0, block0_buyers = Some [],
       block0_count = Some 0, block0_total = 0, block0_pct = Some 0,
       total_transferred = Some 0, early_buyer_count = 0, all_buyers = 0,
       buyers_by_slot = []\<rparr>
     = Inr (0, [Reason (- 10) ''Clean launch (minimal Block 0 activity)'' []])"
  by (simp add: calculate_risk_score_def Let_def dict_get_def buyer_count_rule_def
      supply_rule_def largest_buyer_rule_def clean_launch_rule_def add_reason_def clamp_score_def)

lemma custom_score_clamped_at_100:
  "map_sum id fst (calculate_custom_score
      \<lparr>mintAuthority = Some ''Auth'', freezeAuthority = Some ''Auth'', risks = [],
       token_extensions = [ExtDict (Some ''transferHook''), ExtDict (Some ''permanentDelegate'')],
       totalMarketLiquidity = None, topHolders = [], knownAccounts = Map.empty,
       creatorBalance = Some 1, token_supply = Some 100, markets = []\<rparr> None)
     = Inr 100"
  by (simp add: calculate_custom_score_def Let_def dict_get_def truthy_str_def authority_rule_def
      metadata_rule_def extensions_rule_def extension_step_def liquidity_rule_def
      holder_rule_def creator_rule_def py_div_def risk_flags_rule_def positive_rule_def
      max_lp_locked_def add_reason_def clamp_score_def)

text \<open>
  C2. In the launch-sniping scorer every metric contributes the delta of its highest
  matching tier only, and the contributions of the four metrics add up before the clamp;
  the reasons list carries exactly the non-zero contributions, in rule order. With 25
  window buyers, a window share of 60 percent and a largest window buyer at 12 percent of
  the total, the score is 95 and the reasons are +40, +35 and +20, with no clean-launch
  deduction.
\<close>

theorem launch_score_tiers:
  assumes "dict_get 0 (block0_count a) = c" and "dict_get 0 (block0_pct a) = p"
    and "dict_get [] (block0_buyers a) = buyers" and "dict_get 1 (total_transferred a) = t"
    and "buyers = [] \<or> t \<noteq> 0"
  shows "(\<exists>rs. calculate_risk_score a =
              Inr (clamp_score (count_tier c + share_tier p + largest_delta buyers t
                                + clean_bonus c p), rs)
            \<and> map delta rs =
                nonzero_deltas [count_tier c, share_tier p, largest_delta buyers t,
                                clean_bonus c p])
       \<and> (c = 25 \<and> p = 60 \<and> buyers = b # bs \<and> b_amount b / t * 100 = 12 \<longrightarrow>
            calculate_risk_score a =
              Inr (95,
                   [Reason 40 ''{block0_count} wallets bought in Block 0 (highly coordinated)''
                      [Num 25],
                    Reason 35 ''{block0_pct:.1f}% of supply grabbed in Block 0'' [Num 60],
                    Reason 20 ''Single wallet sniped {largest_buyer_pct:.1f}% in Block 0''
                      [Num 12]]))"
proof (intro conjI impI)
  show "\<exists>rs. calculate_risk_score a =
              Inr (clamp_score (count_tier c + share_tier p + largest_delta buyers t
                                + clean_bonus c p), rs)
            \<and> map delta rs =
                nonzero_deltas [count_tier c, share_tier p, largest_delta buyers t,
                                clean_bonus c p]"
    using calculate_risk_score_tiers[OF assms(3,4,5,1,2)] .
next
  assume sc: "c = 25 \<and> p = 60 \<and> buyers = b # bs \<and> b_amount b / t * 100 = 12"
  then have "t \<noteq> 0" by auto
  then have "py_div (b_amount b) t = Inr (b_amount b / t)" by (rule py_div_returns)
  then show "calculate_risk_score a =
              Inr (95,
                   [Reason 40 ''{block0_count} wallets bought in Block 0 (highly coordinated)''
                      [Num 25],
                    Reason 35 ''{block0_pct:.1f}% of supply grabbed in Block 0'' [Num 60],
                    Reason 20 ''Single wallet sniped {largest_buyer_pct:.1f}% in Block 0''
                      [Num 12]])"
    using assms(1-4) sc
    by (simp add: calculate_risk_score_def Let_def buyer_count_rule_def supply_rule_def
        largest_buyer_rule_def clean_launch_rule_def add_reason_def clamp_score_def)
qed

theorem launch_score_tiers_witness:
  "calculate_risk_score
      \<lparr>creation_slot = 7, creation_timestamp = 0,
       block0_buyers = Some [\<lparr>b_wallet = ''A'', b_amount = 12\<rparr>, \<lparr>b_wallet = ''B'', b_amount = 2\<rparr>],
       block0_count = Some 25, block0_total = 60, block0_pct = Some 60,
       total_transferred = Some 100, early_buyer_count = 25, all_buyers = 40,
       buyers_by_slot = [(0, 25)]\<rparr> =
     Inr (95,
          [Reason 40 ''{block0_count} wallets bought in Block 0 (highly coordinated)'' [Num 25],
           Reason 35 ''{block0_pct:.1f}% of supply grabbed in Block 0'' [Num 60],
           Reason 20 ''Single wallet sniped {largest_buyer_pct:.1f}% in Block 0'' [Num 12]])"
proof -
  let ?a = "\<lparr>creation_slot = 7, creation_timestamp = 0,
       block0_buyers = Some [\<lparr>b_wallet = ''A'', b_amount = 12\<rparr>, \<lparr>b_wallet = ''B'', b_amount = 2\<rparr>],
       block0_count = Some 25, block0_total = 60, block0_pct = Some 60,
       total_transferred = Some 100, early_buyer_count = 25, all_buyers = 40,
       buyers_by_slot = [(0, 25)]\<rparr>"
  have c: "dict_get 0 (block0_count ?a) = 25" and p: "dict_get 0 (block0_pct ?a) = 60"
    and bs: "dict_get [] (block0_buyers ?a)
               = [\<lparr>b_wallet = ''A'', b_amount = 12\<rparr>, \<lparr>b_wallet = ''B'', b_amount = 2\<rparr>]"
    and t: "dict_get 1 (total_transferred ?a) = 100"
    by (simp_all add: dict_get_def)
  have nz: "[\<lparr>b_wallet = ''A'', b_amount = 12\<rparr>, \<lparr>b_wallet = ''B'', b_amount = 2\<rparr>] = []
              \<or> (100 :: rat) \<noteq> 0"
    by simp
  show ?thesis
    using launch_score_tiers[OF c p bs t nz, of "\<lparr>b_wallet = ''A'', b_amount = 12\<rparr>"
        "[\<lparr>b_wallet = ''B'', b_amount = 2\<rparr>]"]
    by simp
qed

text \<open>
  C7. A wallet younger than 3 days gets the score 95 whatever the other arguments are,
  and the only reason is the burner-wallet line: no other rule is evaluated. A wallet
  aged 1 day with no prior launch is such a case (the witness).
\<close>

theorem fresh_burner_override:
  "wallet_age_days < 3 \<Longrightarrow>
     calculate_dev_risk_score wallet_age_days total_launches rug_count dead_count
         launches_per_week
       = Inr (95, [Reason 95 ''BURNER WALLET (age: {wallet_age_days:.1f} days)''
                     [Num wallet_age_days]])"
  by (simp add: calculate_dev_risk_score_def)

theorem fresh_burner_override_witness:
  "calculate_dev_risk_score 1 0 0 0 0
     = Inr (95, [Reason 95 ''BURNER WALLET (age: {wallet_age_days:.1f} days)'' [Num 1]])"
proof -
  have "(1 :: rat) < 3" by simp
  then show ?thesis by (rule fresh_burner_override)
qed

text \<open>
  C8. A wallet of age at least 3 days with at least one launch and at least one confirmed
  rug gets a final score of at least 40. The counts are those of the call site
  (\<^verbatim>\<open>len(created_tokens)\<close> and \<^verbatim>\<open>sum(1 for ...)\<close>), so the number of dead tokens is not
  negative; then the clean-track-record deduction cannot apply.
\<close>

theorem rug_floor:
  assumes "3 \<le> wallet_age_days" and "1 \<le> total_launches" and "1 \<le> rug_count"
    and "0 \<le> dead_count"
  shows "\<exists>s rs. calculate_dev_risk_score wallet_age_days total_launches rug_count dead_count
                   launches_per_week = Inr (s, rs) \<and> 40 \<le> s"
proof -
  define st1 where "st1 = rug_rate_rule (of_int rug_count / of_int total_launches)
                            (wallet_age_rule wallet_age_days (0, []))"
  define st2 where "st2 = rug_floor_rule rug_count st1"
  define st4 where "st4 = serial_launcher_rule launches_per_week st2"
  define st5 where "st5 = volume_rule total_launches st4"
  have "40 \<le> fst st2"
    unfolding st2_def using assms(3) by (intro rug_floor_rule_floor) simp
  also have "\<dots> \<le> fst st4"
    unfolding st4_def by (rule serial_launcher_rule_mono)
  also have "\<dots> \<le> fst st5"
    unfolding st5_def by (rule volume_rule_mono)
  finally have five: "40 \<le> fst st5" .
  have "calculate_dev_risk_score wallet_age_days total_launches rug_count dead_count
          launches_per_week = Inr (clamp_score (fst st5), snd st5)"
    using assms
    by (simp add: calculate_dev_risk_score_def Let_def launch_rate_returns dead_token_rule_def
        track_record_rule_def st1_def st2_def st4_def st5_def)
  moreover have "40 \<le> clamp_score (fst st5)"
    using five by (simp add: clamp_score_def)
  ultimately show ?thesis by blast
qed

text \<open>
  The witness is a wallet with one rug in three launches: the rug-rate formula alone gives
  23 points, and the score is 40.
\<close>

theorem rug_floor_witness:
  "py_int (of_int 1 / of_int 3 * 70) = 23
   \<and> (\<exists>s rs. calculate_dev_risk_score 100 3 1 0 0 = Inr (s, rs) \<and> 40 \<le> s)"
proof -
  have "(3 :: rat) \<le> 100" and "(1 :: int) \<le> 3" and "(1 :: int) \<le> 1" and "(0 :: int) \<le> 0"
    by simp_all
  then have "\<exists>s rs. calculate_dev_risk_score 100 3 1 0 0 = Inr (s, rs) \<and> 40 \<le> s"
    by (rule rug_floor)
  moreover have "py_int (of_int 1 / of_int 3 * 70) = 23"
    by (simp add: py_int_def floor_eq_iff)
  ultimately show ?thesis by blast
qed

section \<open>The aggregation loop as a fold over Buy events\<close>

lemma process_transfer_event:
  "process_transfer mint s d transfer st =
     (if is_buy mint transfer
      then record_buy (dict_get [] (toUserAccount transfer))
             (dict_get 0 (tokenAmount transfer)) s d st
      else st)"
  by (auto simp: process_transfer_def is_buy_def truthy_str_def dict_get_def Let_def
           split: option.splits)

lemma fold_process_transfer:
  "fold (process_transfer mint s d) transfers st =
     fold (\<lambda>transfer. record_buy (dict_get [] (toUserAccount transfer))
                         (dict_get 0 (tokenAmount transfer)) s d)
       (filter (is_buy mint) transfers) st"
  by (induction transfers arbitrary: st) (simp_all add: process_transfer_event)

lemma process_tx_events:
  "process_tx mint creation tx st = fold (apply_buy creation) (buy_events mint tx) st"
proof -
  have "apply_buy creation e = record_buy (buy_wallet e) (buy_amount e) (buy_slot e)
       (calc_slot_diff creation (buy_slot e))" for e
    by (rule ext) (simp add: apply_buy_def)
  then show ?thesis
    by (simp add: process_tx_def Let_def fold_process_transfer buy_events_def fold_map comp_def)
qed

lemma fold_process_tx:
  "fold (process_tx mint creation) txs st = fold (apply_buy creation) (all_buy_events mint txs) st"
  by (induction txs arbitrary: st) (simp_all add: all_buy_events_def process_tx_events)

lemma launch_loop_events:
  "launch_loop mint creation txs = fold (apply_buy creation) (all_buy_events mint txs) empty_state"
  by (simp add: launch_loop_def fold_process_tx empty_state_def)

lemma all_buy_events_append:
  "all_buy_events mint (xs @ ys) = all_buy_events mint xs @ all_buy_events mint ys"
  by (simp add: all_buy_events_def)

lemma all_buy_events_Cons:
  "all_buy_events mint (x # xs) = buy_events mint x @ all_buy_events mint xs"
  by (simp add: all_buy_events_def)

lemma buy_events_positive: "e \<in> set (buy_events mint tx) \<Longrightarrow> 0 < buy_amount e"
  by (auto simp: buy_events_def is_buy_def)

lemma all_buy_events_positive: "e \<in> set (all_buy_events mint txs) \<Longrightarrow> 0 < buy_amount e"
  by (auto simp: all_buy_events_def dest: buy_events_positive)

lemma buy_events_slot: "e \<in> set (buy_events mint tx) \<Longrightarrow> buy_slot e = dict_get 0 (slot tx)"
  by (auto simp: buy_events_def)

subsection \<open>The wallet entries after the loop\<close>

lemma map_of_apply_buy:
  "map_of (st_wallet_purchases (apply_buy c e st)) w =
     (if w = buy_wallet e then
        Some (case map_of (st_wallet_purchases st) w of
                None \<Rightarrow> \<lparr>p_amount = buy_amount e, p_slot = Some (buy_slot e),
                          p_is_block0 = (calc_slot_diff c (buy_slot e) \<le> 1)\<rparr>
              | Some p \<Rightarrow>
                  if p_slot p = None
                  then p\<lparr>p_amount := p_amount p + buy_amount e, p_slot := Some (buy_slot e),
                         p_is_block0 := (calc_slot_diff c (buy_slot e) \<le> 1)\<rparr>
                  else p\<lparr>p_amount := p_amount p + buy_amount e\<rparr>)
      else map_of (st_wallet_purchases st) w)"
  by (auto simp: apply_buy_def record_buy_def Let_def update_conv' dict_get_def new_purchase_def
           split: option.splits)

lemma purchases_after_events:
  "map_of (st_wallet_purchases (fold (apply_buy c) es empty_state)) w
     = purchase_of c (buys_of w es)"
proof (induction es rule: rev_induct)
  case Nil
  show ?case by (simp add: empty_state_def purchase_of_def buys_of_def)
next
  case (snoc e es)
  show ?case
  proof (cases "w = buy_wallet e")
    case False
    then show ?thesis using snoc by (simp add: map_of_apply_buy buys_of_def)
  next
    case True
    show ?thesis
    proof (cases "buys_of w es")
      case Nil
      then show ?thesis using snoc True
        by (simp add: map_of_apply_buy buys_of_def purchase_of_def)
    next
      case (Cons f fs)
      then show ?thesis using snoc True
        by (simp add: map_of_apply_buy buys_of_def purchase_of_def)
    qed
  qed
qed

lemma distinct_apply_buy:
  "distinct (map fst (st_wallet_purchases st))
     \<Longrightarrow> distinct (map fst (st_wallet_purchases (apply_buy c e st)))"
  by (simp add: apply_buy_def record_buy_def Let_def distinct_update)

lemma distinct_after_events:
  "distinct (map fst (st_wallet_purchases (fold (apply_buy c) es empty_state)))"
  by (induction es rule: rev_induct) (simp_all add: empty_state_def distinct_apply_buy)

lemma purchase_entry:
  assumes "(w, p) \<in> set (st_wallet_purchases (launch_loop mint c txs))"
  shows "purchase_of c (buys_of w (all_buy_events mint txs)) = Some p"
proof -
  have "map_of (st_wallet_purchases (launch_loop mint c txs)) w = Some p"
    using assms distinct_after_events[of c "all_buy_events mint txs"]
    by (simp add: launch_loop_events)
  then show ?thesis by (simp add: launch_loop_events purchases_after_events)
qed

lemma sum_list_nonneg_amounts:
  "(\<And>e. e \<in> set es \<Longrightarrow> 0 < buy_amount e) \<Longrightarrow> 0 \<le> sum_list (map buy_amount es)"
  by (induction es) (auto simp: less_imp_le)

lemma purchase_amount_positive:
  assumes "(w, p) \<in> set (st_wallet_purchases (launch_loop mint c txs))"
  shows "0 < p_amount p"
proof -
  have po: "purchase_of c (buys_of w (all_buy_events mint txs)) = Some p"
    using assms by (rule purchase_entry)
  then obtain e later where el: "buys_of w (all_buy_events mint txs) = e # later"
    by (auto simp: purchase_of_def split: list.splits)
  have pos: "0 < buy_amount x" if "x \<in> set (e # later)" for x
  proof -
    from that el have "x \<in> set (all_buy_events mint txs)"
      by (metis buys_of_def filter_is_subset subsetD)
    then show ?thesis by (rule all_buy_events_positive)
  qed
  have "0 < buy_amount e" using pos by simp
  moreover have "0 \<le> sum_list (map buy_amount later)"
    using pos by (intro sum_list_nonneg_amounts) simp
  moreover have "p_amount p = buy_amount e + sum_list (map buy_amount later)"
    using po el by (auto simp: purchase_of_def)
  ultimately show ?thesis by simp
qed

lemma sum_list_positive:
  fixes f :: "'a \<Rightarrow> rat"
  assumes "xs \<noteq> []" and "\<And>x. x \<in> set xs \<Longrightarrow> 0 < f x"
  shows "0 < sum_list (map f xs)"
  using assms
proof (induction xs)
  case Nil
  then show ?case by simp
next
  case (Cons x xs)
  show ?case
  proof (cases "xs = []")
    case True
    then show ?thesis using Cons.prems(2) by simp
  next
    case False
    then have "0 < sum_list (map f xs)" using Cons by simp
    moreover have "0 < f x" using Cons.prems(2) by simp
    ultimately show ?thesis by simp
  qed
qed

subsection \<open>Sorting the window buyers\<close>

lemma sum_list_insort_key:
  fixes f :: "'a \<Rightarrow> rat"
  shows "sum_list (map f (insort_key k x xs)) = f x + sum_list (map f xs)"
  by (induction xs) simp_all

lemma sum_list_sort_key:
  fixes f :: "'a \<Rightarrow> rat"
  shows "sum_list (map f (sort_key k xs)) = sum_list (map f xs)"
  by (induction xs) (simp_all add: sum_list_insort_key)

subsection \<open>The reference slot\<close>


lemma find_creation_no_slot: "(\<And>tx. tx \<in> set txs \<Longrightarrow> slot tx = None) \<Longrightarrow> find_creation txs = None"
  by (induction txs) simp_all

lemma find_creation_nonzero: "find_creation txs = Some (c, ts) \<Longrightarrow> c \<noteq> 0 \<and> Some c \<in> slot ` set txs"
  by (induction txs) (auto split: option.splits if_splits)

subsection \<open>The summary after the loop\<close>

lemma window_share_returns:
  "window_share b0_total transferred
     = Inr (if transferred > 0 then b0_total / transferred * 100 else 0)"
  by (simp add: window_share_def py_div_def)


lemma launch_summary_eq:
  "launch_summary c ts st =
     Inr \<lparr>creation_slot = c,
          creation_timestamp = ts,
          block0_buyers = Some (sort_buyers (map to_buyer (window_entries (st_wallet_purchases st)))),
          block0_count = Some (int (length (window_entries (st_wallet_purchases st)))),
          block0_total = total_amount (window_entries (st_wallet_purchases st)),
          block0_pct =
            Some (if total_amount (st_wallet_purchases st) > 0
                  then total_amount (window_entries (st_wallet_purchases st))
                         / total_amount (st_wallet_purchases st) * 100
                  else 0),
          total_transferred = Some (total_amount (st_wallet_purchases st)),
          early_buyer_count =
            sum_list (map (\<lambda>s. length (dict_get [] (map_of (st_buyers_by_slot st) s)))
                        [0, 1, 2, 3, 4, 5]),
          all_buyers = length (st_wallet_purchases st),
          buyers_by_slot =
            map (\<lambda>(k, v). (k, length v)) (take 10 (sort_key fst (st_buyers_by_slot st)))\<rparr>"
  by (simp add: launch_summary_def Let_def window_share_returns sort_buyers_def)

lemma analyze_cases:
  "analyze_launch_transactions transactions mint =
     (if transactions = [] then Inl (ErrorResult ''No transactions found'')
      else case find_creation (sort_by_timestamp transactions) of
             None \<Rightarrow> Inl (ErrorResult ''Could not determine creation slot'')
           | Some (c, ts) \<Rightarrow>
               launch_summary c ts (launch_loop mint c (sort_by_timestamp transactions)))"
  by (simp add: analyze_launch_transactions_def Let_def)

lemma analyze_returns:
  assumes "analyze_launch_transactions transactions mint = Inr a"
  obtains c ts where "find_creation (sort_by_timestamp transactions) = Some (c, ts)"
    and "launch_summary c ts (launch_loop mint c (sort_by_timestamp transactions)) = Inr a"
  using assms by (auto simp: analyze_cases split: if_splits option.splits)

lemma length_sort_buyers: "length (sort_buyers bs) = length bs"
  by (simp add: sort_buyers_def)

lemma set_sort_buyers: "set (sort_buyers bs) = set bs"
  by (simp add: sort_buyers_def)

lemma total_amount_buyers:
  "sum_list (map b_amount (sort_buyers (map to_buyer entries))) = total_amount entries"
proof -
  have "map b_amount (map to_buyer entries) = map (\<lambda>(wallet, d). p_amount d) entries"
    by (induction entries) (auto simp: to_buyer_def)
  then show ?thesis
    by (simp add: sort_buyers_def sum_list_sort_key total_amount_def del: map_map)
qed

lemma total_amount_positive:
  assumes "entries \<noteq> []" and "\<And>w p. (w, p) \<in> set entries \<Longrightarrow> 0 < p_amount p"
  shows "0 < total_amount entries"
  unfolding total_amount_def using assms by (intro sum_list_positive) auto

lemma window_needs_transfers:
  assumes "window_entries (st_wallet_purchases (launch_loop mint c txs)) \<noteq> []"
  shows "0 < total_amount (st_wallet_purchases (launch_loop mint c txs))"
proof (rule total_amount_positive)
  show "st_wallet_purchases (launch_loop mint c txs) \<noteq> []"
    using assms by (auto simp: window_entries_def)
next
  fix w p
  assume "(w, p) \<in> set (st_wallet_purchases (launch_loop mint c txs))"
  then show "0 < p_amount p" by (rule purchase_amount_positive)
qed


section \<open>Claim about the score range\<close>

lemma analysis_division_safe:
  assumes "analyze_launch_transactions transactions mint = Inr a"
  shows "dict_get [] (block0_buyers a) = [] \<or> dict_get 1 (total_transferred a) \<noteq> 0"
proof -
  obtain c ts where
    a: "launch_summary c ts (launch_loop mint c (sort_by_timestamp transactions)) = Inr a"
    using assms by (rule analyze_returns)
  let ?wp = "st_wallet_purchases (launch_loop mint c (sort_by_timestamp transactions))"
  have tt: "total_transferred a = Some (total_amount ?wp)"
    and bs: "block0_buyers a = Some (sort_buyers (map to_buyer (window_entries ?wp)))"
    using a by (auto simp: launch_summary_eq)
  show ?thesis
  proof (cases "window_entries ?wp = []")
    case True
    then show ?thesis using bs by (simp add: dict_get_def sort_buyers_def)
  next
    case False
    then have "0 < total_amount ?wp" by (rule window_needs_transfers)
    then show ?thesis using tt by (simp add: dict_get_def)
  qed
qed

text \<open>
  C1. Each of the three scorers returns a score between 0 and 100. The token-safety
  scorer and the wallet-history scorer do so for every input. The launch-sniping scorer
  is called on the analysis that launch analysis returns: for every such analysis it
  returns a score between 0 and 100, and so it does for every analysis, with any buyer
  count and any percentage, whose window-buyer list is empty or whose
  \<^verbatim>\<open>total_transferred\<close> is not 0.
\<close>

theorem scores_in_range:
  "(analyze_launch_transactions transactions mint = Inr a \<longrightarrow>
      (\<exists>s rs. calculate_risk_score a = Inr (s, rs) \<and> 0 \<le> s \<and> s \<le> 100))
   \<and> (dict_get [] (block0_buyers m) = [] \<or> dict_get 1 (total_transferred m) \<noteq> 0 \<longrightarrow>
      (\<exists>s rs. calculate_risk_score m = Inr (s, rs) \<and> 0 \<le> s \<and> s \<le> 100))
   \<and> (\<exists>s rs. calculate_custom_score rugcheck dex = Inr (s, rs) \<and> 0 \<le> s \<and> s \<le> 100)
   \<and> (\<exists>s rs. calculate_dev_risk_score age launches rugs deads per_week = Inr (s, rs)
         \<and> 0 \<le> s \<and> s \<le> 100)"
proof (intro conjI impI)
  assume "analyze_launch_transactions transactions mint = Inr a"
  then have "dict_get [] (block0_buyers a) = [] \<or> dict_get 1 (total_transferred a) \<noteq> 0"
    by (rule analysis_division_safe)
  then show "\<exists>s rs. calculate_risk_score a = Inr (s, rs) \<and> 0 \<le> s \<and> s \<le> 100"
    by (rule calculate_risk_score_returns)
next
  assume "dict_get [] (block0_buyers m) = [] \<or> dict_get 1 (total_transferred m) \<noteq> 0"
  then show "\<exists>s rs. calculate_risk_score m = Inr (s, rs) \<and> 0 \<le> s \<and> s \<le> 100"
    by (rule calculate_risk_score_returns)
next
  show "\<exists>s rs. calculate_custom_score rugcheck dex = Inr (s, rs) \<and> 0 \<le> s \<and> s \<le> 100"
    by (rule calculate_custom_score_returns)
next
  show "\<exists>s rs. calculate_dev_risk_score age launches rugs deads per_week = Inr (s, rs)
          \<and> 0 \<le> s \<and> s \<le> 100"
    by (rule calculate_dev_risk_score_returns)
qed

text \<open>
  The witness: the analysis of one record in which wallet A buys 5 at the reference slot,
  and an analysis with 25 window buyers holding all of the supply, the largest holding
  half of it.
\<close>

theorem scores_in_range_witness:
  "(\<exists>s rs. calculate_risk_score (projr (analyze_launch_transactions
        [\<lparr>slot = Some 100, timestamp = Some 10,
          tokenTransfers = [\<lparr>tr_mint = Some ''M'', toUserAccount = Some ''A'',
                             fromUserAccount = None, tokenAmount = Some 5\<rparr>]\<rparr>] ''M''))
       = Inr (s, rs) \<and> 0 \<le> s \<and> s \<le> 100)
   \<and> (\<exists>s rs. calculate_risk_score
        \<lparr>creation_slot = 7, creation_timestamp = 0,
         block0_buyers = Some [\<lparr>b_wallet = ''A'', b_amount = 50\<rparr>],
         block0_count = Some 25, block0_total = 100, block0_pct = Some 100,
         total_transferred = Some 100, early_buyer_count = 25, all_buyers = 25,
         buyers_by_slot = [(0, 25)]\<rparr> = Inr (s, rs) \<and> 0 \<le> s \<and> s \<le> 100)"
proof -
  let ?txs = "[\<lparr>slot = Some 100, timestamp = Some 10,
          tokenTransfers = [\<lparr>tr_mint = Some ''M'', toUserAccount = Some ''A'',
                             fromUserAccount = None, tokenAmount = Some (5 :: rat)\<rparr>]\<rparr>]"
  let ?m = "\<lparr>creation_slot = 7, creation_timestamp = 0,
         block0_buyers = Some [\<lparr>b_wallet = ''A'', b_amount = 50\<rparr>],
         block0_count = Some 25, block0_total = 100, block0_pct = Some 100,
         total_transferred = Some 100, early_buyer_count = 25, all_buyers = 25,
         buyers_by_slot = [(0, 25)]\<rparr>"
  obtain a where ret: "analyze_launch_transactions ?txs ''M'' = Inr a"
    by (simp add: analyze_cases sort_by_timestamp_def dict_get_def launch_summary_eq)
  have h: "dict_get [] (block0_buyers ?m) = [] \<or> dict_get 1 (total_transferred ?m) \<noteq> 0"
    by (simp add: dict_get_def)
  have range: "(\<exists>s rs. calculate_risk_score a = Inr (s, rs) \<and> 0 \<le> s \<and> s \<le> 100)
      \<and> (\<exists>s rs. calculate_risk_score ?m = Inr (s, rs) \<and> 0 \<le> s \<and> s \<le> 100)"
    using scores_in_range[of ?txs "''M''" a ?m] ret h by blast
  show ?thesis using range ret by simp
qed

section \<open>Claims about launch-window aggregation\<close>

text \<open>
  C3. For every wallet, the entry of \<^verbatim>\<open>wallet_purchases\<close> after the loop is fixed by the
  wallet's Buy events in processing order: \<^verbatim>\<open>is_block0\<close> is true exactly when the slot
  of the first event minus the reference slot is at most 1, whatever the later events
  are, and \<^verbatim>\<open>amount\<close> is the sum over all its events. Processing further records
  \<open>further\<close> leaves the flag as it is.
\<close>

theorem capture_once:
  assumes "creation \<noteq> 0"
    and "buys_of w (all_buy_events mint sorted_txs) = first # later"
  shows "map_of (st_wallet_purchases (launch_loop mint creation sorted_txs)) w =
           Some \<lparr>p_amount = buy_amount first + sum_list (map buy_amount later),
                 p_slot = Some (buy_slot first),
                 p_is_block0 = (buy_slot first - creation \<le> 1)\<rparr>
       \<and> map_option p_is_block0
           (map_of (st_wallet_purchases (launch_loop mint creation (sorted_txs @ further))) w)
           = Some (buy_slot first - creation \<le> 1)"
proof -
  have d: "calc_slot_diff creation (buy_slot first) = buy_slot first - creation"
    using assms(1) by (simp add: calc_slot_diff_def)
  have ext: "buys_of w (all_buy_events mint (sorted_txs @ further))
                = first # (later @ buys_of w (all_buy_events mint further))"
    using assms(2) by (simp add: all_buy_events_append buys_of_def)
  show ?thesis
    using assms(2) ext d
    by (simp add: launch_loop_events purchases_after_events purchase_of_def)
qed

text \<open>
  The witness is the scenario of the specification: reference slot 100, a wallet that
  buys 5 at offset 0 and 7 at offset 50. It stays a window buyer with amount 12.
\<close>

theorem capture_once_witness:
  "map_of (st_wallet_purchases (launch_loop ''M'' 100
      [\<lparr>slot = Some 100, timestamp = Some 10,
        tokenTransfers = [\<lparr>tr_mint = Some ''M'', toUserAccount = Some ''A'',
                           fromUserAccount = Some ''P'', tokenAmount = Some 5\<rparr>]\<rparr>,
       \<lparr>slot = Some 150, timestamp = Some 30,
        tokenTransfers = [\<lparr>tr_mint = Some ''M'', toUserAccount = Some ''A'',
                           fromUserAccount = Some ''P'', tokenAmount = Some 7\<rparr>]\<rparr>])) ''A''
     = Some \<lparr>p_amount = 12, p_slot = Some 100, p_is_block0 = True\<rparr>"
proof -
  let ?txs = "[\<lparr>slot = Some 100, timestamp = Some 10,
        tokenTransfers = [\<lparr>tr_mint = Some ''M'', toUserAccount = Some ''A'',
                           fromUserAccount = Some ''P'', tokenAmount = Some 5\<rparr>]\<rparr>,
       \<lparr>slot = Some 150, timestamp = Some 30,
        tokenTransfers = [\<lparr>tr_mint = Some ''M'', toUserAccount = Some ''A'',
                           fromUserAccount = Some ''P'', tokenAmount = Some (7 :: rat)\<rparr>]\<rparr>]"
  have c: "(100 :: int) \<noteq> 0" by simp
  have ev: "buys_of ''A'' (all_buy_events ''M'' ?txs)
              = \<lparr>buy_wallet = ''A'', buy_amount = 5, buy_slot = 100\<rparr>
                # [\<lparr>buy_wallet = ''A'', buy_amount = 7, buy_slot = 150\<rparr>]"
    by (simp add: buys_of_def all_buy_events_def buy_events_def is_buy_def truthy_str_def
        dict_get_def)
  show ?thesis using capture_once[OF c ev, of "[]"] by simp
qed

text \<open>
  C4. When the transaction list is not empty and no record has a slot, launch analysis
  returns the error result "Could not determine creation slot".
\<close>

theorem no_reference_point:
  assumes "transactions \<noteq> []" and "\<forall>tx \<in> set transactions. slot tx = None"
  shows "analyze_launch_transactions transactions mint
           = Inl (ErrorResult ''Could not determine creation slot'')"
proof -
  have "find_creation (sort_by_timestamp transactions) = None"
    using assms(2) by (intro find_creation_no_slot) (simp add: sort_by_timestamp_def)
  then show ?thesis using assms(1) by (simp add: analyze_cases)
qed

theorem no_reference_point_witness:
  "analyze_launch_transactions
      [\<lparr>slot = None, timestamp = Some 10,
        tokenTransfers = [\<lparr>tr_mint = Some ''M'', toUserAccount = Some ''A'',
                           fromUserAccount = None, tokenAmount = Some 5\<rparr>]\<rparr>] ''M''
     = Inl (ErrorResult ''Could not determine creation slot'')"
  by (rule no_reference_point) simp_all





text \<open>
  C6. Launch analysis never raises a division by zero; in the analysis it returns, a
  total transferred amount of 0 comes with a window share of 0; and the scorer, run on
  that analysis, never divides by zero either: it divides by \<^verbatim>\<open>total_transferred\<close>
  only when there is a window buyer, and then the total is positive.
\<close>

theorem zero_denominator_safety:
  "analyze_launch_transactions transactions mint \<noteq> Inl ZeroDivisionError
   \<and> (analyze_launch_transactions transactions mint = Inr a \<longrightarrow>
        (\<exists>t. total_transferred a = Some t \<and> (t = 0 \<longrightarrow> block0_pct a = Some 0))
        \<and> (dict_get [] (block0_buyers a) = [] \<or> 0 < dict_get 1 (total_transferred a))
        \<and> (\<exists>s rs. calculate_risk_score a = Inr (s, rs)))"
proof (intro conjI impI)
  show "analyze_launch_transactions transactions mint \<noteq> Inl ZeroDivisionError"
    by (simp add: analyze_cases launch_summary_eq split: option.splits)
next
  assume ret: "analyze_launch_transactions transactions mint = Inr a"
  then obtain c ts where
    a: "launch_summary c ts (launch_loop mint c (sort_by_timestamp transactions)) = Inr a"
    by (rule analyze_returns)
  let ?wp = "st_wallet_purchases (launch_loop mint c (sort_by_timestamp transactions))"
  have tt: "total_transferred a = Some (total_amount ?wp)"
    and pct: "block0_pct a = Some (if total_amount ?wp > 0
                                  then total_amount (window_entries ?wp) / total_amount ?wp * 100
                                  else 0)"
    and bs: "block0_buyers a = Some (sort_buyers (map to_buyer (window_entries ?wp)))"
    using a by (auto simp: launch_summary_eq)
  show "\<exists>t. total_transferred a = Some t \<and> (t = 0 \<longrightarrow> block0_pct a = Some 0)"
    using tt pct by simp
  show safe: "dict_get [] (block0_buyers a) = [] \<or> 0 < dict_get 1 (total_transferred a)"
  proof (cases "window_entries ?wp = []")
    case True
    then show ?thesis using bs by (simp add: dict_get_def sort_buyers_def)
  next
    case False
    then have "0 < total_amount ?wp" by (rule window_needs_transfers)
    then show ?thesis using tt by (simp add: dict_get_def)
  qed
  have "dict_get [] (block0_buyers a) = [] \<or> dict_get 1 (total_transferred a) \<noteq> 0"
    using safe by auto
  then show "\<exists>s rs. calculate_risk_score a = Inr (s, rs)"
    using calculate_risk_score_returns by blast
qed

text \<open>
  The witness is a record list without any qualifying transfer: the total transferred
  amount is 0, the window share is 0, and the scorer returns.
\<close>

theorem zero_denominator_safety_witness:
  "analyze_launch_transactions
      [\<lparr>slot = Some 100, timestamp = Some 10, tokenTransfers = []\<rparr>] ''M''
     = Inr \<lparr>creation_slot = 100, creation_timestamp = 10, block0_buyers = Some [],
            block0_count = Some 0, block0_total = 0, block0_pct = Some 0,
            total_transferred = Some 0, early_buyer_count = 0, all_buyers = 0,
            buyers_by_slot = []\<rparr>
   \<and> (\<exists>s rs. calculate_risk_score
         \<lparr>creation_slot = 100, creation_timestamp = 10, block0_buyers = Some [],
          block0_count = Some 0, block0_total = 0, block0_pct = Some 0,
          total_transferred = Some 0, early_buyer_count = 0, all_buyers = 0,
          buyers_by_slot = []\<rparr> = Inr (s, rs))"
proof -
  let ?txs = "[\<lparr>slot = Some 100, timestamp = Some 10, tokenTransfers = []\<rparr>]"
  let ?a = "\<lparr>creation_slot = 100, creation_timestamp = 10, block0_buyers = Some [],
            block0_count = Some 0, block0_total = 0, block0_pct = Some 0,
            total_transferred = Some 0, early_buyer_count = 0, all_buyers = 0,
            buyers_by_slot = []\<rparr>"
  have r: "analyze_launch_transactions ?txs ''M'' = Inr ?a"
    by (simp add: analyze_cases sort_by_timestamp_def dict_get_def launch_summary_eq
        launch_loop_def process_tx_def window_entries_def total_amount_def sort_buyers_def)
  show ?thesis
    using zero_denominator_safety[of ?txs "''M''" ?a] r by simp
qed

text \<open>
  C10. A qualifying transfer in a record without a slot is processed with slot 0, so its
  offset is 0 minus the reference slot. Slots are not negative, so the reference slot is
  positive and the offset is below 1: a wallet whose first Buy event comes from such a
  record is among \<^verbatim>\<open>block0_buyers\<close> with the sum of all its buys, and
  \<^verbatim>\<open>block0_count\<close>, \<^verbatim>\<open>block0_total\<close> and \<^verbatim>\<open>block0_pct\<close> are computed from that list.
\<close>

theorem slotless_buy_is_window_buy:
  assumes ret: "analyze_launch_transactions transactions mint = Inr a"
    and nonneg: "\<forall>tx \<in> set transactions. \<forall>s. slot tx = Some s \<longrightarrow> 0 \<le> s"
    and split: "sort_by_timestamp transactions = before @ tx # after"
    and slotless: "slot tx = None"
    and buys: "buys_of w (buy_events mint tx) \<noteq> []"
    and first: "buys_of w (all_buy_events mint before) = []"
  shows "\<exists>buyers b t.
           block0_buyers a = Some buyers \<and> b \<in> set buyers \<and> b_wallet b = w
           \<and> b_amount b
               = sum_list (map buy_amount
                   (buys_of w (all_buy_events mint (sort_by_timestamp transactions))))
           \<and> block0_count a = Some (int (length buyers))
           \<and> block0_total a = sum_list (map b_amount buyers)
           \<and> total_transferred a = Some t \<and> 0 < t
           \<and> block0_pct a = Some (block0_total a / t * 100)"
proof -
  obtain c ts where fc: "find_creation (sort_by_timestamp transactions) = Some (c, ts)"
    and a: "launch_summary c ts (launch_loop mint c (sort_by_timestamp transactions)) = Inr a"
    using ret by (rule analyze_returns)
  let ?wp = "st_wallet_purchases (launch_loop mint c (sort_by_timestamp transactions))"
  let ?events = "all_buy_events mint (sort_by_timestamp transactions)"
  \<comment> \<open>the reference slot is positive\<close>
  have cnz: "c \<noteq> 0" and "Some c \<in> slot ` set (sort_by_timestamp transactions)"
    using find_creation_nonzero[OF fc] by simp_all
  then obtain x where "x \<in> set transactions" and "slot x = Some c"
    by (auto simp: sort_by_timestamp_def)
  then have "0 \<le> c" using nonneg by blast
  then have cpos: "0 < c" using cnz by simp
  \<comment> \<open>the first Buy event of the wallet has slot 0\<close>
  obtain e l1 where el: "buys_of w (buy_events mint tx) = e # l1"
    using buys by (cases "buys_of w (buy_events mint tx)") auto
  then have "e \<in> set (buy_events mint tx)"
    by (metis buys_of_def filter_is_subset list.set_intros(1) subsetD)
  then have e0: "buy_slot e = 0"
    using slotless by (simp add: buy_events_slot dict_get_def)
  have all: "buys_of w ?events = e # (l1 @ buys_of w (all_buy_events mint after))"
    using split first el
    by (simp add: all_buy_events_append all_buy_events_Cons buys_of_def)
  \<comment> \<open>so its entry is a window entry\<close>
  define p where "p = \<lparr>p_amount = sum_list (map buy_amount (buys_of w ?events)),
                       p_slot = Some 0, p_is_block0 = True\<rparr>"
  have "map_of ?wp w = Some p"
    using all e0 cpos
    by (simp add: launch_loop_events purchases_after_events purchase_of_def p_def
        calc_slot_diff_def)
  then have mem: "(w, p) \<in> set ?wp" by (rule map_of_SomeD)
  then have win: "(w, p) \<in> set (window_entries ?wp)"
    by (simp add: window_entries_def p_def)
  define buyers where "buyers = sort_buyers (map to_buyer (window_entries ?wp))"
  have b1: "to_buyer (w, p) \<in> set buyers"
    using win by (simp add: buyers_def set_sort_buyers)
  have b2: "b_wallet (to_buyer (w, p)) = w"
    and b3: "b_amount (to_buyer (w, p)) = sum_list (map buy_amount (buys_of w ?events))"
    by (simp_all add: to_buyer_def p_def)
  have tpos: "0 < total_amount ?wp"
    using win by (intro window_needs_transfers) auto
  have f1: "block0_buyers a = Some buyers"
    and f2: "block0_count a = Some (int (length buyers))"
    and f3: "block0_total a = sum_list (map b_amount buyers)"
    and f4: "total_transferred a = Some (total_amount ?wp)"
    and f5: "block0_pct a = Some (block0_total a / total_amount ?wp * 100)"
    using a tpos
    by (auto simp: launch_summary_eq buyers_def total_amount_buyers length_sort_buyers)
  show ?thesis using f1 b1 b2 b3 f2 f3 f4 tpos f5 by blast
qed

text \<open>
  The witness: the record without slot and timestamp sorts first and carries the first
  buy of wallet B; the reference slot is 100, the offset of that buy is -100, and B is a
  window buyer with both of its buys.
\<close>

theorem slotless_buy_is_window_buy_witness:
  "\<exists>buyers b. block0_buyers (projr (analyze_launch_transactions
        [\<lparr>slot = Some 100, timestamp = Some 10,
          tokenTransfers = [\<lparr>tr_mint = Some ''M'', toUserAccount = Some ''B'',
                             fromUserAccount = None, tokenAmount = Some 3\<rparr>]\<rparr>,
         \<lparr>slot = None, timestamp = None,
          tokenTransfers = [\<lparr>tr_mint = Some ''M'', toUserAccount = Some ''B'',
                             fromUserAccount = None, tokenAmount = Some 7\<rparr>]\<rparr>] ''M''))
       = Some buyers \<and> b \<in> set buyers \<and> b_wallet b = ''B'' \<and> b_amount b = 10"
proof -
  let ?t1 = "\<lparr>slot = Some 100, timestamp = Some 10,
          tokenTransfers = [\<lparr>tr_mint = Some ''M'', toUserAccount = Some ''B'',
                             fromUserAccount = None, tokenAmount = Some (3 :: rat)\<rparr>]\<rparr>"
  let ?t2 = "\<lparr>slot = None, timestamp = None,
          tokenTransfers = [\<lparr>tr_mint = Some ''M'', toUserAccount = Some ''B'',
                             fromUserAccount = None, tokenAmount = Some (7 :: rat)\<rparr>]\<rparr>"
  obtain a where ret: "analyze_launch_transactions [?t1, ?t2] ''M'' = Inr a"
    by (simp add: analyze_cases sort_by_timestamp_def dict_get_def launch_summary_eq)
  have nonneg: "\<forall>tx \<in> set [?t1, ?t2]. \<forall>s. slot tx = Some s \<longrightarrow> 0 \<le> s" by simp
  have split: "sort_by_timestamp [?t1, ?t2] = [] @ ?t2 # [?t1]"
    by (simp add: sort_by_timestamp_def dict_get_def)
  have slotless: "slot ?t2 = None" by simp
  have buys: "buys_of ''B'' (buy_events ''M'' ?t2) \<noteq> []"
    by (simp add: buys_of_def buy_events_def is_buy_def truthy_str_def dict_get_def)
  have first: "buys_of ''B'' (all_buy_events ''M'' []) = []"
    by (simp add: buys_of_def all_buy_events_def)
  have total: "sum_list (map buy_amount
                 (buys_of ''B'' (all_buy_events ''M'' (sort_by_timestamp [?t1, ?t2])))) = 10"
    by (simp add: sort_by_timestamp_def buys_of_def all_buy_events_def buy_events_def is_buy_def
        truthy_str_def dict_get_def)
  show ?thesis
    using slotless_buy_is_window_buy[OF ret nonneg split slotless buys first] ret total
    by auto
qed


section \<open>Claim about the outcome classifier\<close>

text \<open>
  C9, as the code has it. In both scripts a rugged flag gives RUGGED whatever the
  liquidity is; otherwise, when DexScreener data exists, the liquidity (0 when the pair
  has no reading) gives DEAD below 1000, LOW_LIQ below 5000 and ACTIVE from 5000 on;
  when neither lookup returned anything the status is UNKNOWN. When only the RugCheck
  summary exists (its score read with default 100), tokenscreen gives HIGH_RISK above 70
  and UNKNOWN otherwise, while walletscreen gives HIGH_RISK above 70, CAUTION above 40 and
  ACTIVE otherwise.
\<close>

theorem outcome_precedence:
  "(is_rugged rugcheck \<longrightarrow>
      out_status (tokenscreen_classify_token_outcome rugcheck dex) = RUGGED
      \<and> out_status (walletscreen_classify_token_outcome rugcheck dex) = RUGGED)
   \<and> (\<not> is_rugged rugcheck \<and> dex = Some d \<longrightarrow>
      out_status (tokenscreen_classify_token_outcome rugcheck dex)
        = (if dict_get 0 (liquidity_usd d) < 1000 then DEAD
           else if dict_get 0 (liquidity_usd d) < 5000 then LOW_LIQ else ACTIVE)
      \<and> out_status (walletscreen_classify_token_outcome rugcheck dex)
        = (if dict_get 0 (liquidity_usd d) < 1000 then DEAD
           else if dict_get 0 (liquidity_usd d) < 5000 then LOW_LIQ else ACTIVE))
   \<and> (\<not> is_rugged rugcheck \<and> dex = None \<and> rugcheck = Some rc \<longrightarrow>
      out_status (tokenscreen_classify_token_outcome rugcheck dex)
        = (if dict_get 100 (rc_score rc) > 70 then HIGH_RISK else UNKNOWN)
      \<and> out_status (walletscreen_classify_token_outcome rugcheck dex)
        = (if dict_get 100 (rc_score rc) > 70 then HIGH_RISK
           else if dict_get 100 (rc_score rc) > 40 then CAUTION else ACTIVE))
   \<and> (rugcheck = None \<and> dex = None \<longrightarrow>
      out_status (tokenscreen_classify_token_outcome rugcheck dex) = UNKNOWN
      \<and> out_status (walletscreen_classify_token_outcome rugcheck dex) = UNKNOWN)"
proof (intro conjI impI)
  assume "is_rugged rugcheck"
  then show "out_status (tokenscreen_classify_token_outcome rugcheck dex) = RUGGED"
    and "out_status (walletscreen_classify_token_outcome rugcheck dex) = RUGGED"
    by (simp_all add: tokenscreen_classify_token_outcome_def
        walletscreen_classify_token_outcome_def Let_def)
next
  assume h: "\<not> is_rugged rugcheck \<and> dex = Some d"
  then show "out_status (tokenscreen_classify_token_outcome rugcheck dex)
        = (if dict_get 0 (liquidity_usd d) < 1000 then DEAD
           else if dict_get 0 (liquidity_usd d) < 5000 then LOW_LIQ else ACTIVE)"
    by (simp add: tokenscreen_classify_token_outcome_def Let_def classify_with_dex_def
        liquidity_status_def)
  from h show "out_status (walletscreen_classify_token_outcome rugcheck dex)
        = (if dict_get 0 (liquidity_usd d) < 1000 then DEAD
           else if dict_get 0 (liquidity_usd d) < 5000 then LOW_LIQ else ACTIVE)"
    by (simp add: walletscreen_classify_token_outcome_def Let_def classify_with_dex_def
        liquidity_status_def)
next
  assume "\<not> is_rugged rugcheck \<and> dex = None \<and> rugcheck = Some rc"
  then have h: "\<not> is_rugged (Some rc)" "dex = None" "rugcheck = Some rc" by auto
  then show "out_status (tokenscreen_classify_token_outcome rugcheck dex)
        = (if dict_get 100 (rc_score rc) > 70 then HIGH_RISK else UNKNOWN)"
    by (simp add: tokenscreen_classify_token_outcome_def Let_def)
  from h show "out_status (walletscreen_classify_token_outcome rugcheck dex)
        = (if dict_get 100 (rc_score rc) > 70 then HIGH_RISK
           else if dict_get 100 (rc_score rc) > 40 then CAUTION else ACTIVE)"
    by (simp add: walletscreen_classify_token_outcome_def Let_def)
next
  assume "rugcheck = None \<and> dex = None"
  then show "out_status (tokenscreen_classify_token_outcome rugcheck dex) = UNKNOWN"
    and "out_status (walletscreen_classify_token_outcome rugcheck dex) = UNKNOWN"
    by (simp_all add: tokenscreen_classify_token_outcome_def
        walletscreen_classify_token_outcome_def Let_def is_rugged_def initial_outcome_def)
qed

text \<open>
  One input for each of the four cases: a rugged token with high liquidity, a token with
  500 dollars of liquidity, a token known to RugCheck only with score 80, and a token
  that neither service knows.
\<close>

theorem outcome_precedence_witness:
  "out_status (tokenscreen_classify_token_outcome
       (Some \<lparr>tokenMeta_symbol = Some ''TKN'', rugged = Some True, rc_score = Some 10\<rparr>)
       (Some \<lparr>liquidity_usd = Some 250000, baseToken_symbol = Some ''TKN''\<rparr>)) = RUGGED
   \<and> out_status (walletscreen_classify_token_outcome
       (Some \<lparr>tokenMeta_symbol = Some ''TKN'', rugged = Some False, rc_score = Some 10\<rparr>)
       (Some \<lparr>liquidity_usd = Some 500, baseToken_symbol = Some ''TKN''\<rparr>)) = DEAD
   \<and> out_status (tokenscreen_classify_token_outcome
       (Some \<lparr>tokenMeta_symbol = Some ''TKN'', rugged = Some False, rc_score = Some 80\<rparr>)
       None) = HIGH_RISK
   \<and> out_status (walletscreen_classify_token_outcome None None) = UNKNOWN"
proof -
  let ?r1 = "Some \<lparr>tokenMeta_symbol = Some ''TKN'', rugged = Some True, rc_score = Some 10\<rparr>"
  let ?r2 = "Some \<lparr>tokenMeta_symbol = Some ''TKN'', rugged = Some False, rc_score = Some 10\<rparr>"
  let ?r3 = "\<lparr>tokenMeta_symbol = Some ''TKN'', rugged = Some False, rc_score = Some 80\<rparr>"
  let ?d1 = "\<lparr>liquidity_usd = Some 250000, baseToken_symbol = Some ''TKN''\<rparr>"
  let ?d2 = "\<lparr>liquidity_usd = Some 500, baseToken_symbol = Some ''TKN''\<rparr>"
  have h1: "is_rugged ?r1" and h2: "\<not> is_rugged ?r2" and h3: "\<not> is_rugged (Some ?r3)"
    by (simp_all add: is_rugged_def)
  show ?thesis
    using outcome_precedence[of ?r1 "Some ?d1"] outcome_precedence[of ?r2 "Some ?d2" ?d2]
      outcome_precedence[of "Some ?r3" None _ ?r3] outcome_precedence[of None None]
      h1 h2 h3
    by (simp add: dict_get_def)
qed

text \<open>
  C9 as stated fails for walletscreen: with no DexScreener data and a RugCheck score of
  50 the status is CAUTION, not UNKNOWN.
\<close>

theorem outcome_precedence_counterexample:
  "out_status (walletscreen_classify_token_outcome
      (Some \<lparr>tokenMeta_symbol = Some ''TKN'', rugged = Some False, rc_score = Some 50\<rparr>)
      None) = CAUTION"
  by (simp add: walletscreen_classify_token_outcome_def Let_def is_rugged_def dict_get_def)

end
